theory Spec2Isabelle
  imports Complex_Main "HOL-Library.Word"
begin

section \<open>JavaScript numbers\<close>

text \<open>
  The demuxer is TypeScript: every numeric value is an IEEE-754 binary64 number.
  Integer-valued quantities (byte positions, sizes, table entries, tick counts) are
  modelled by \<open>nat\<close> and \<open>int\<close>; they are exact in the source as long as they stay
  below \<open>2^53\<close>. Results of division and of the microsecond and frame-rate scaling are
  modelled by the type \<open>number\<close>: a finite value is the rational it denotes, rounded to
  binary64 by \<open>fl\<close> after every operation, and the two infinities and NaN are values of
  their own. The sign of zero is not modelled.
\<close>

datatype number = Fin rat | PosInf | NegInf | NaN

text \<open>The bit length of a positive integer.\<close>

function bits :: "int \<Rightarrow> nat" where
  "bits n = (if n \<le> 0 then 0 else Suc (bits (n div 2)))"
  by pat_completeness auto
termination by (relation "measure nat") auto

declare bits.simps [simp del]

definition pow2 :: "int \<Rightarrow> rat" where
  "pow2 e = (if 0 \<le> e then 2 ^ nat e else 1 / 2 ^ nat (- e))"

text \<open>\<open>ilog2 r\<close> is the exponent \<open>e\<close> with \<open>2^e \<le> r < 2^(e+1)\<close>, for \<open>r > 0\<close>.\<close>

definition ilog2 :: "rat \<Rightarrow> int" where
  "ilog2 r = (if 1 \<le> r then int (bits \<lfloor>r\<rfloor>) - 1 else - int (bits (\<lceil>1 / r\<rceil> - 1)))"

definition round_half_even :: "rat \<Rightarrow> int" where
  "round_half_even q = (let f = \<lfloor>q\<rfloor>; d = q - of_int f
     in if d < 1 / 2 then f else if 1 / 2 < d then f + 1
        else if even f then f else f + 1)"

text \<open>Rounding to binary64, to nearest with ties to even: 53 significant bits, the
  exponent not below \<open>-1022\<close> (subnormal numbers keep that exponent), and overflow to
  an infinity from \<open>2^1024\<close> on.\<close>

definition fl :: "rat \<Rightarrow> number" where
  "fl r = (if r = 0 then Fin 0 else
     let a = \<bar>r\<bar>; e = max (ilog2 a) (- 1022);
         n = round_half_even (a / pow2 (e - 52))
     in if 1024 \<le> e \<or> (e = 1023 \<and> n = 2 ^ 53) then (if 0 < r then PosInf else NegInf)
        else Fin ((if 0 < r then 1 else - 1) * of_int n * pow2 (e - 52)))"

fun js_neg :: "number \<Rightarrow> number" where
  "js_neg (Fin a) = Fin (- a)"
| "js_neg PosInf = NegInf"
| "js_neg NegInf = PosInf"
| "js_neg NaN = NaN"

fun js_sgn :: "number \<Rightarrow> int" where
  "js_sgn (Fin a) = (if a < 0 then - 1 else if a = 0 then 0 else 1)"
| "js_sgn PosInf = 1"
| "js_sgn NegInf = - 1"
| "js_sgn NaN = 0"

fun js_add :: "number \<Rightarrow> number \<Rightarrow> number" where
  "js_add (Fin a) (Fin b) = fl (a + b)"
| "js_add NaN _ = NaN"
| "js_add _ NaN = NaN"
| "js_add PosInf NegInf = NaN"
| "js_add NegInf PosInf = NaN"
| "js_add PosInf _ = PosInf"
| "js_add NegInf _ = NegInf"
| "js_add _ PosInf = PosInf"
| "js_add _ NegInf = NegInf"

definition js_sub :: "number \<Rightarrow> number \<Rightarrow> number" where
  "js_sub a b = js_add a (js_neg b)"

fun js_mul :: "number \<Rightarrow> number \<Rightarrow> number" where
  "js_mul (Fin a) (Fin b) = fl (a * b)"
| "js_mul NaN _ = NaN"
| "js_mul _ NaN = NaN"
| "js_mul a b = (if js_sgn a * js_sgn b = 0 then NaN
                 else if 0 < js_sgn a * js_sgn b then PosInf else NegInf)"

text \<open>Division; a zero divisor is the positive zero (the divisors of the source are
  unsigned table entries).\<close>

fun js_div :: "number \<Rightarrow> number \<Rightarrow> number" where
  "js_div (Fin a) (Fin b) =
     (if b = 0 then (if a = 0 then NaN else if 0 < a then PosInf else NegInf)
      else fl (a / b))"
| "js_div NaN _ = NaN"
| "js_div _ NaN = NaN"
| "js_div (Fin a) _ = Fin 0"
| "js_div a (Fin b) = (if 0 \<le> b then a else js_neg a)"
| "js_div _ _ = NaN"

fun js_lt :: "number \<Rightarrow> number \<Rightarrow> bool" where
  "js_lt (Fin a) (Fin b) = (a < b)"
| "js_lt NaN _ = False"
| "js_lt _ NaN = False"
| "js_lt NegInf NegInf = False"
| "js_lt NegInf _ = True"
| "js_lt _ NegInf = False"
| "js_lt PosInf _ = False"
| "js_lt _ PosInf = True"

definition js_gt :: "number \<Rightarrow> number \<Rightarrow> bool" where
  "js_gt a b = js_lt b a"

definition js_le :: "number \<Rightarrow> number \<Rightarrow> bool" where
  "js_le a b = (a \<noteq> NaN \<and> b \<noteq> NaN \<and> \<not> js_lt b a)"

text \<open>\<open>Math.round\<close>: the nearest integer, a tie going up.\<close>

fun math_round :: "number \<Rightarrow> number" where
  "math_round (Fin a) = Fin (of_int \<lfloor>a + 1 / 2\<rfloor>)"
| "math_round x = x"

text \<open>\<open>Number(b)\<close> for a non-negative BigInt \<open>b\<close> below \<open>2^64\<close>, as read by
  \<open>readUint64\<close>: the nearest binary64 value, which is again an integer.\<close>

definition number_of_bigint :: "nat \<Rightarrow> nat" where
  "number_of_bigint b = (case fl (of_nat b) of Fin r \<Rightarrow> nat \<lfloor>r\<rfloor> | _ \<Rightarrow> b)"

text \<open>Evaluation of \<open>fl\<close> on numerals.\<close>

lemma bits_0 [simp]: "bits 0 = 0"
  by (simp add: bits.simps)

lemma bits_1 [simp]: "bits 1 = 1"
  by (simp add: bits.simps)

lemma bits_Bit0 [simp]: "bits (numeral (Num.Bit0 k)) = Suc (bits (numeral k))"
  by (subst bits.simps) simp

lemma bits_Bit1 [simp]: "bits (numeral (Num.Bit1 k)) = Suc (bits (numeral k))"
  by (subst bits.simps) simp

lemma bits_One [simp]: "bits Numeral1 = 1"
  by (simp add: bits.simps)

lemma floor_rat_numeral [simp]: "\<lfloor>numeral a / numeral b :: rat\<rfloor> = numeral a div numeral b"
  by (metis floor_divide_of_int_eq of_int_numeral)

lemma floor_rat_one_numeral [simp]: "\<lfloor>1 / numeral b :: rat\<rfloor> = 1 div numeral b"
  by (metis floor_divide_of_int_eq of_int_numeral of_int_1)

lemma ceiling_rat_numeral [simp]:
  "\<lceil>numeral a / numeral b :: rat\<rceil> = - (- numeral a div numeral b)"
  by (metis ceiling_def floor_divide_of_int_eq of_int_numeral of_int_minus minus_divide_left)

lemmas fl_numeral =
  fl_def[of 0] fl_def[of 1] fl_def[of "numeral k" for k] fl_def[of "- numeral k" for k]
  fl_def[of "numeral a / numeral b" for a b] fl_def[of "1 / numeral b" for b]
  fl_def[of "- (numeral a / numeral b)" for a b] fl_def[of "- (1 / numeral b)" for b]

lemmas fl_eval = fl_numeral ilog2_def pow2_def round_half_even_def Let_def

section \<open>Samples and the cursor (demuxer.ts)\<close>

record MOVSample =
  offset :: nat
  sample_size :: nat
  timestamp :: number
  duration :: number
  isKeyframe :: bool
  streamId :: nat

text \<open>The part of \<open>MOVDemuxer\<close> the cursor operations read and write: the merged
  sample list and \<open>currentSampleIndex\<close>.\<close>

record cursor_state =
  samples :: "MOVSample list"
  currentSampleIndex :: nat




definition reset :: "'a cursor_state_scheme \<Rightarrow> 'a cursor_state_scheme" where
  "reset d = d\<lparr>currentSampleIndex := 0\<rparr>"




section \<open>Errors (errors.ts)\<close>

datatype MOVErrorCode =
    INVALID_FILE_FORMAT | UNSUPPORTED_CODEC | CORRUPT_DATA | WEBCODECS_NOT_SUPPORTED
  | DECODER_ERROR | SEEK_ERROR | SAMPLE_NOT_FOUND | STREAM_NOT_FOUND
  | INVALID_BOX_SIZE | MISSING_REQUIRED_BOX | INVALID_SAMPLE_TABLE

text \<open>What a call can throw: the \<open>RangeError\<close> of the platform (a \<open>DataView\<close> read or
  a typed-array view out of bounds), a plain \<open>Error\<close> with its message, or the typed
  \<open>MOVError\<close> of errors.ts with its code, message and detail.\<close>

datatype error = RangeError | Error string | MOVError MOVErrorCode string "string option"

definition corruptData :: error where
  "corruptData = MOVError CORRUPT_DATA ''Corrupt or invalid data detected'' None"

definition missingRequiredBox :: "string \<Rightarrow> error" where
  "missingRequiredBox t = MOVError MISSING_REQUIRED_BOX (''Missing required box: '' @ t) (Some t)"

definition bind_result :: "error + 'a \<Rightarrow> ('a \<Rightarrow> error + 'b) \<Rightarrow> error + 'b" where
  "bind_result m f = (case m of Inl e \<Rightarrow> Inl e | Inr x \<Rightarrow> f x)"

lemma bind_result_Inr [simp]: "bind_result (Inr x) f = f x"
  by (simp add: bind_result_def)

lemma bind_result_Inl [simp]: "bind_result (Inl e) f = Inl e"
  by (simp add: bind_result_def)

section \<open>The byte reader (byte-reader.ts)\<close>

text \<open>
  The file is one \<open>ArrayBuffer\<close>, a list of bytes. Every \<open>Uint8Array\<close> and every
  \<open>DataView\<close> of the program is a window of that buffer, given by its offset and length.
  A \<open>ByteReader\<close> is the window of its \<open>DataView\<close> and the read position in it. All
  readers of the program are big-endian (the \<open>littleEndian\<close> flag is never set).
\<close>

type_synonym bytes = "8 word list"

record Uint8Array =
  byteOffset :: nat
  byteLength :: nat

record ByteReader =
  view :: Uint8Array
  position :: nat

definition reader_of_buffer :: "bytes \<Rightarrow> ByteReader" where
  "reader_of_buffer buf = \<lparr>view = \<lparr>byteOffset = 0, byteLength = length buf\<rparr>, position = 0\<rparr>"

definition reader_of_array :: "Uint8Array \<Rightarrow> ByteReader" where
  "reader_of_array u = \<lparr>view = u, position = 0\<rparr>"

definition remaining :: "ByteReader \<Rightarrow> int" where
  "remaining r = int (byteLength (view r)) - int (position r)"

definition skip :: "nat \<Rightarrow> ByteReader \<Rightarrow> ByteReader" where
  "skip n r = r\<lparr>position := position r + n\<rparr>"

text \<open>The bytes a window shows.\<close>

definition array_bytes :: "bytes \<Rightarrow> Uint8Array \<Rightarrow> bytes" where
  "array_bytes buf u = take (byteLength u) (drop (byteOffset u) buf)"

definition be_value :: "bytes \<Rightarrow> nat" where
  "be_value bs = foldl (\<lambda>a b. a * 256 + unat b) 0 bs"

text \<open>A \<open>DataView\<close> getter of \<open>n\<close> bytes at the read position: a \<open>RangeError\<close> unless
  the bytes lie inside the view.\<close>

definition get_uint :: "nat \<Rightarrow> bytes \<Rightarrow> ByteReader \<Rightarrow> error + (nat \<times> ByteReader)" where
  "get_uint n buf r =
     (if position r + n \<le> byteLength (view r)
      then Inr (be_value (take n (drop (byteOffset (view r) + position r) buf)),
                r\<lparr>position := position r + n\<rparr>)
      else Inl RangeError)"

definition readUint8 :: "bytes \<Rightarrow> ByteReader \<Rightarrow> error + (nat \<times> ByteReader)" where
  "readUint8 = get_uint 1"

definition readUint16 :: "bytes \<Rightarrow> ByteReader \<Rightarrow> error + (nat \<times> ByteReader)" where
  "readUint16 = get_uint 2"

text \<open>\<open>readUint24\<close> is three \<open>readUint8\<close> calls, combined by shifts.\<close>

definition readUint24 :: "bytes \<Rightarrow> ByteReader \<Rightarrow> error + (nat \<times> ByteReader)" where
  "readUint24 buf r =
     bind_result (readUint8 buf r) (\<lambda>(a, r1).
     bind_result (readUint8 buf r1) (\<lambda>(b, r2).
     bind_result (readUint8 buf r2) (\<lambda>(c, r3).
       Inr (a * 65536 + b * 256 + c, r3))))"

definition readUint32 :: "bytes \<Rightarrow> ByteReader \<Rightarrow> error + (nat \<times> ByteReader)" where
  "readUint32 = get_uint 4"

text \<open>\<open>readUint64\<close> returns a BigInt, an exact natural number.\<close>

definition readUint64 :: "bytes \<Rightarrow> ByteReader \<Rightarrow> error + (nat \<times> ByteReader)" where
  "readUint64 = get_uint 8"

definition signed_of :: "nat \<Rightarrow> nat \<Rightarrow> int" where
  "signed_of w u = (if 2 ^ (w - 1) \<le> u then int u - 2 ^ w else int u)"

definition readInt16 :: "bytes \<Rightarrow> ByteReader \<Rightarrow> error + (int \<times> ByteReader)" where
  "readInt16 buf r = bind_result (get_uint 2 buf r) (\<lambda>(u, r1). Inr (signed_of 16 u, r1))"

definition readInt32 :: "bytes \<Rightarrow> ByteReader \<Rightarrow> error + (int \<times> ByteReader)" where
  "readInt32 buf r = bind_result (get_uint 4 buf r) (\<lambda>(u, r1). Inr (signed_of 32 u, r1))"

text \<open>\<open>readBytes\<close> builds \<open>new Uint8Array(view.buffer, view.byteOffset + offset, length)\<close>:
  a window of the underlying buffer, checked against the end of the buffer, not against
  the end of the reader's own view.\<close>

definition readBytes :: "bytes \<Rightarrow> nat \<Rightarrow> ByteReader \<Rightarrow> error + (Uint8Array \<times> ByteReader)" where
  "readBytes buf n r =
     (if byteOffset (view r) + position r + n \<le> length buf
      then Inr (\<lparr>byteOffset = byteOffset (view r) + position r, byteLength = n\<rparr>,
                r\<lparr>position := position r + n\<rparr>)
      else Inl RangeError)"

text \<open>\<open>readString\<close> with the default \<open>ascii\<close> encoding: one character per byte.\<close>

definition readString :: "bytes \<Rightarrow> nat \<Rightarrow> ByteReader \<Rightarrow> error + (string \<times> ByteReader)" where
  "readString buf n r =
     bind_result (readBytes buf n r) (\<lambda>(u, r1).
       Inr (map (\<lambda>b. char_of (unat b)) (array_bytes buf u), r1))"

definition readFourCC :: "bytes \<Rightarrow> ByteReader \<Rightarrow> error + (string \<times> ByteReader)" where
  "readFourCC buf = readString buf 4"

text \<open>\<open>readFixed16\<close> and \<open>readFixed32\<close> are the same code: \<open>readInt32() / (1 << 16)\<close>.\<close>

definition readFixed32 :: "bytes \<Rightarrow> ByteReader \<Rightarrow> error + (number \<times> ByteReader)" where
  "readFixed32 buf r =
     bind_result (readInt32 buf r) (\<lambda>(v, r1). Inr (js_div (Fin (of_int v)) (Fin 65536), r1))"

definition readFixed16 :: "bytes \<Rightarrow> ByteReader \<Rightarrow> error + (number \<times> ByteReader)" where
  "readFixed16 = readFixed32"

text \<open>A loop that pushes the results of \<open>n\<close> reads.\<close>

fun read_many :: "nat \<Rightarrow> (ByteReader \<Rightarrow> error + ('a \<times> ByteReader)) \<Rightarrow> ByteReader
    \<Rightarrow> error + ('a list \<times> ByteReader)" where
  "read_many 0 p r = Inr ([], r)"
| "read_many (Suc n) p r =
     (case p r of Inl e \<Rightarrow> Inl e
      | Inr (x, r1) \<Rightarrow>
          (case read_many n p r1 of Inl e \<Rightarrow> Inl e
           | Inr (xs, r2) \<Rightarrow> Inr (x # xs, r2)))"

section \<open>The box parser (box-parser.ts)\<close>

record MOVAtom =
  atom_type :: string
  atom_size :: nat
  atom_offset :: nat

datatype MOVBox = MOVBox
  (box_type: string) (box_size: nat) (box_offset: nat)
  (box_data: "Uint8Array option") (box_children: "MOVBox list option")

text \<open>The last statements of \<open>readBoxHeader\<close>: the offset is computed from the final
  value of \<open>size\<close>, after an extended size has replaced the 32-bit field.\<close>

definition header_atom :: "string \<Rightarrow> nat \<Rightarrow> ByteReader \<Rightarrow> MOVAtom" where
  "header_atom t sz r =
     \<lparr>atom_type = t, atom_size = sz, atom_offset = position r - (if sz = 1 then 16 else 8)\<rparr>"

definition readBoxHeader :: "bytes \<Rightarrow> ByteReader \<Rightarrow> error + (MOVAtom option \<times> ByteReader)" where
  "readBoxHeader buf r =
     (if remaining r < 8 then Inr (None, r)
      else
        bind_result (readUint32 buf r) (\<lambda>(sz, r1).
        bind_result (readFourCC buf r1) (\<lambda>(t, r2).
          if sz = 1 then
            (if remaining r2 < 8 then Inr (None, r2)
             else bind_result (readUint64 buf r2) (\<lambda>(extendedSize, r3).
               Inr (Some (header_atom t (number_of_bigint extendedSize) r3), r3)))
          else if sz = 0 then Inr (Some (header_atom t (nat (remaining r2 + 8)) r2), r2)
          else Inr (Some (header_atom t sz r2), r2))))"

definition containerTypes :: "string list" where
  "containerTypes = [''moov'', ''trak'', ''mdia'', ''minf'', ''stbl'', ''udta'', ''meta'',
     ''dinf'', ''edts'', ''mvex'', ''moof'', ''traf'', ''mfra'', ''skip'', ''wide'', ''free'',
     ''uuid'', ''pnot'']"

definition isContainerBox :: "string \<Rightarrow> bool" where
  "isContainerBox t = (t \<in> set containerTypes)"

text \<open>\<open>parseBox\<close> and the loop of \<open>parseContainerBox\<close> call each other. A box that
  \<open>parseBox\<close> gives up on (\<open>null\<close>) is not pushed; the reader stays where the header
  ended. A \<open>break\<close> leaves the reader where it is.\<close>

function (domintros) parseBox :: "bytes \<Rightarrow> MOVAtom \<Rightarrow> ByteReader \<Rightarrow> error + (MOVBox option \<times> ByteReader)"
  and container_loop :: "bytes \<Rightarrow> int \<Rightarrow> ByteReader \<Rightarrow> error + (MOVBox list \<times> ByteReader)"
where
  "parseBox buf atom r =
     (let dataSize = int (atom_size atom) - (int (position r) - int (atom_offset atom)) in
      if dataSize < 0 \<or> remaining r < dataSize then Inr (None, r)
      else if isContainerBox (atom_type atom) then
        (case container_loop buf (int (position r) + dataSize) r of
           Inl e \<Rightarrow> Inl e
         | Inr (children, r1) \<Rightarrow>
             Inr (Some (MOVBox (atom_type atom) (atom_size atom) (atom_offset atom)
                          None (Some children)), r1))
      else
        (case readBytes buf (nat dataSize) r of
           Inl e \<Rightarrow> Inl e
         | Inr (d, r1) \<Rightarrow>
             Inr (Some (MOVBox (atom_type atom) (atom_size atom) (atom_offset atom)
                          (Some d) None), r1)))"
| "container_loop buf endOffset r =
     (if int (position r) < endOffset \<and> 0 < remaining r then
        (case readBoxHeader buf r of
           Inl e \<Rightarrow> Inl e
         | Inr (None, r1) \<Rightarrow> Inr ([], r1)
         | Inr (Some atom, r1) \<Rightarrow>
             if endOffset < int (position r1) - 8 + int (atom_size atom) then Inr ([], r1)
             else
               (case parseBox buf atom r1 of
                  Inl e \<Rightarrow> Inl e
                | Inr (child, r2) \<Rightarrow>
                    (case container_loop buf endOffset r2 of
                       Inl e \<Rightarrow> Inl e
                     | Inr (rest, r3) \<Rightarrow>
                         Inr ((case child of None \<Rightarrow> rest | Some c \<Rightarrow> c # rest), r3))))
      else Inr ([], r))"
  by pat_completeness auto

text \<open>Every read leaves the view alone and moves the position forward; so does the
  parser, which is why its loops end.\<close>

lemma get_uint_adv:
  "get_uint n buf r = Inr (x, r1) \<Longrightarrow> view r1 = view r \<and> position r1 = position r + n"
  by (auto simp: get_uint_def split: if_splits)

lemma readBytes_adv:
  "readBytes buf n r = Inr (u, r1) \<Longrightarrow> view r1 = view r \<and> position r1 = position r + n"
  by (auto simp: readBytes_def split: if_splits)

lemma readFourCC_adv:
  "readFourCC buf r = Inr (t, r1) \<Longrightarrow> view r1 = view r \<and> position r1 = position r + 4"
  by (auto simp: readFourCC_def readString_def bind_result_def split: sum.splits dest: readBytes_adv)

lemma readBoxHeader_adv:
  assumes "readBoxHeader buf r = Inr (a, r1)"
  shows "view r1 = view r \<and> position r \<le> position r1 \<and> (a \<noteq> None \<longrightarrow> position r + 8 \<le> position r1)"
proof -
  show ?thesis
  proof (cases "remaining r < 8")
    case True
    with assms show ?thesis by (simp add: readBoxHeader_def)
  next
    case False
    then obtain sz r1' where u: "readUint32 buf r = Inr (sz, r1')"
      using assms by (auto simp: readBoxHeader_def bind_result_def split: sum.splits)
    then obtain t r2 where f: "readFourCC buf r1' = Inr (t, r2)"
      using assms False by (auto simp: readBoxHeader_def bind_result_def split: sum.splits)
    have p1: "view r1' = view r" "position r1' = position r + 4"
      using get_uint_adv[OF u[unfolded readUint32_def]] by simp_all
    have p2: "view r2 = view r" "position r2 = position r + 8"
      using readFourCC_adv[OF f] p1 by simp_all
    have rest: "(if sz = 1 then
            (if remaining r2 < 8 then Inr (None, r2)
             else bind_result (readUint64 buf r2) (\<lambda>(extendedSize, r3).
               Inr (Some (header_atom t (number_of_bigint extendedSize) r3), r3)))
          else if sz = 0 then Inr (Some (header_atom t (nat (remaining r2 + 8)) r2), r2)
          else Inr (Some (header_atom t sz r2), r2)) = Inr (a, r1)"
      using assms False u f by (simp add: readBoxHeader_def bind_result_def)
    show ?thesis
    proof (cases "sz = 1 \<and> \<not> remaining r2 < 8")
      case True
      then obtain x r3 where g: "readUint64 buf r2 = Inr (x, r3)" and
          e: "r1 = r3" 
        using rest by (auto simp: bind_result_def split: sum.splits)
      show ?thesis
        using get_uint_adv[OF g[unfolded readUint64_def]] p2 e by simp
    next
      case False
      then have "r1 = r2" using rest by (auto split: if_splits)
      then show ?thesis using p2 by simp
    qed
  qed
qed


lemma parse_progress_partial:
  "parseBox_container_loop_dom (Inl (buf, atom, r)) \<Longrightarrow>
     (\<forall>b r'. parseBox buf atom r = Inr (b, r') \<longrightarrow> view r' = view r \<and> position r \<le> position r')"
  "parseBox_container_loop_dom (Inr (buf, e, r)) \<Longrightarrow>
     (\<forall>bs r'. container_loop buf e r = Inr (bs, r') \<longrightarrow> view r' = view r \<and> position r \<le> position r')"
proof (induction buf atom r and buf e r rule: parseBox_container_loop.pinduct)
  case (1 buf atom r)
  show ?case
  proof (intro allI impI)
    fix b r' assume eq: "parseBox buf atom r = Inr (b, r')"
    define dataSize where "dataSize = int (atom_size atom) - (int (position r) - int (atom_offset atom))"
    note ps = parseBox.psimps[OF 1(1), unfolded Let_def, folded dataSize_def]
    show "view r' = view r \<and> position r \<le> position r'"
    proof (cases "dataSize < 0 \<or> remaining r < dataSize")
      case True
      with eq ps show ?thesis by simp
    next
      case nb: False
      show ?thesis
      proof (cases "isContainerBox (atom_type atom)")
        case True
        from eq ps nb True obtain cs where
          "container_loop buf (int (position r) + dataSize) r = Inr (cs, r')"
          by (auto split: sum.splits)
        with 1(2)[OF dataSize_def nb True] show ?thesis by blast
      next
        case False
        from eq ps nb False obtain d where "readBytes buf (nat dataSize) r = Inr (d, r')"
          by (auto split: sum.splits)
        from readBytes_adv[OF this] show ?thesis by simp
      qed
    qed
  qed
next
  case (2 buf endOffset r)
  show ?case
  proof (intro allI impI)
    fix bs r' assume eq: "container_loop buf endOffset r = Inr (bs, r')"
    note ps = container_loop.psimps[OF 2(1)]
    show "view r' = view r \<and> position r \<le> position r'"
    proof (cases "int (position r) < endOffset \<and> 0 < remaining r")
      case False
      with eq ps show ?thesis by auto
    next
      case c: True
      from eq ps c obtain a r1 where h: "readBoxHeader buf r = Inr (a, r1)"
        by (auto split: sum.splits)
      note hp = readBoxHeader_adv[OF h]
      show ?thesis
      proof (cases a)
        case None
        with eq ps c h have "r' = r1" by simp
        with hp show ?thesis by simp
      next
        case (Some atom)
        show ?thesis
        proof (cases "endOffset < int (position r1) - 8 + int (atom_size atom)")
          case True
          with eq ps c h Some have "r' = r1" by simp
          with hp show ?thesis by simp
        next
          case nb: False
          from eq ps c h Some nb obtain child r2 where
            pb: "parseBox buf atom r1 = Inr (child, r2)"
            by (auto split: sum.splits)
          from eq ps c h Some nb pb obtain rest where
            cl: "container_loop buf endOffset r2 = Inr (rest, r')"
            by (auto split: sum.splits)
          have a1: "view r2 = view r1 \<and> position r1 \<le> position r2"
            using 2(2)[OF c h refl Some nb] pb by blast
          have a2: "view r' = view r2 \<and> position r2 \<le> position r'"
            using 2(3)[OF c h refl Some nb pb refl] cl by blast
          from a1 a2 hp show ?thesis by simp
        qed
      qed
    qed
  qed
qed


termination parseBox
proof (relation "measure (\<lambda>x. case x of Inl (buf, atom, r) \<Rightarrow> 2 * nat (remaining r) + 1
                                    | Inr (buf, e, r) \<Rightarrow> 2 * nat (remaining r))")
  show "wf (measure (\<lambda>x. case x of Inl (buf, atom, r) \<Rightarrow> 2 * nat (remaining r) + 1
                                    | Inr (buf, e, r) \<Rightarrow> 2 * nat (remaining r)))"
    by simp
next
  fix buf :: bytes and atom :: MOVAtom and r :: ByteReader and x :: int
  show "(Inr (buf, int (position r) + x, r), Inl (buf, atom, r))
        \<in> measure (\<lambda>x. case x of Inl (buf, atom, r) \<Rightarrow> 2 * nat (remaining r) + 1
                                    | Inr (buf, e, r) \<Rightarrow> 2 * nat (remaining r))"
    by simp
next
  fix buf :: bytes and endOffset :: int and r :: ByteReader and b x y x2
  assume c: "int (position r) < endOffset \<and> 0 < remaining r"
    and h: "readBoxHeader buf r = Inr b" "(x, y) = b" "x = Some x2"
  have "readBoxHeader buf r = Inr (Some x2, y)" using h by simp
  from readBoxHeader_adv[OF this] c
  show "(Inl (buf, x2, y), Inr (buf, endOffset, r))
        \<in> measure (\<lambda>x. case x of Inl (buf, atom, r) \<Rightarrow> 2 * nat (remaining r) + 1
                                    | Inr (buf, e, r) \<Rightarrow> 2 * nat (remaining r))"
    by (simp add: remaining_def, arith)
next
  fix buf :: bytes and endOffset :: int and r :: ByteReader and b x y x2 ba xa ya
  assume c: "int (position r) < endOffset \<and> 0 < remaining r"
    and h: "readBoxHeader buf r = Inr b" "(x, y) = b" "x = Some x2"
    and p: "parseBox buf x2 y = Inr ba" "(xa, ya) = ba"
    and d: "parseBox_container_loop_dom (Inl (buf, x2, y))"
  have "readBoxHeader buf r = Inr (Some x2, y)" using h by simp
  note hp = readBoxHeader_adv[OF this]
  have "parseBox buf x2 y = Inr (xa, ya)" using p by simp
  with parse_progress_partial(1)[OF d] have "view ya = view y \<and> position y \<le> position ya"
    by blast
  with hp c
  show "(Inr (buf, endOffset, ya), Inr (buf, endOffset, r))
        \<in> measure (\<lambda>x. case x of Inl (buf, atom, r) \<Rightarrow> 2 * nat (remaining r) + 1
                                    | Inr (buf, e, r) \<Rightarrow> 2 * nat (remaining r))"
    by (simp add: remaining_def)
qed

lemma parse_dom:
  "parseBox_container_loop_dom (Inl (buf, atom, r))"
  "parseBox_container_loop_dom (Inr (buf, e, r))"
  by (induction buf atom r and buf e r rule: parseBox_container_loop.induct)
     (auto intro: parseBox_container_loop.domintros)

lemma parseBox_adv:
  "parseBox buf atom r = Inr (b, r1) \<Longrightarrow> view r1 = view r \<and> position r \<le> position r1"
  using parse_progress_partial(1)[OF parse_dom(1)] by blast

lemma container_loop_adv:
  "container_loop buf e r = Inr (bs, r1) \<Longrightarrow> view r1 = view r \<and> position r \<le> position r1"
  using parse_progress_partial(2)[OF parse_dom(2)] by blast

declare parseBox.simps [simp del] container_loop.simps [simp del]

text \<open>The loop of \<open>parseBoxes\<close>, over the whole file.\<close>

function boxes_loop :: "bytes \<Rightarrow> ByteReader \<Rightarrow> error + (MOVBox list \<times> ByteReader)" where
  "boxes_loop buf r =
     (if 0 < remaining r then
        (case readBoxHeader buf r of
           Inl e \<Rightarrow> Inl e
         | Inr (None, r1) \<Rightarrow> Inr ([], r1)
         | Inr (Some atom, r1) \<Rightarrow>
             (case parseBox buf atom r1 of
                Inl e \<Rightarrow> Inl e
              | Inr (box, r2) \<Rightarrow>
                  (case boxes_loop buf r2 of
                     Inl e \<Rightarrow> Inl e
                   | Inr (rest, r3) \<Rightarrow>
                       Inr ((case box of None \<Rightarrow> rest | Some b \<Rightarrow> b # rest), r3))))
      else Inr ([], r))"
  by pat_completeness auto

termination boxes_loop
proof (relation "measure (\<lambda>(buf, r). nat (remaining r))")
  show "wf (measure (\<lambda>(buf, r). nat (remaining r)))" by simp
next
  fix buf :: bytes and r :: ByteReader and b x y x2 ba xa ya
  assume c: "0 < remaining r"
    and h: "readBoxHeader buf r = Inr b" "(x, y) = b" "x = Some x2"
    and p: "parseBox buf x2 y = Inr ba" "(xa, ya) = ba"
  have "readBoxHeader buf r = Inr (Some x2, y)" using h by simp
  note hp = readBoxHeader_adv[OF this]
  have "parseBox buf x2 y = Inr (xa, ya)" using p by simp
  from parseBox_adv[OF this] hp c
  show "((buf, ya), (buf, r)) \<in> measure (\<lambda>(buf, r). nat (remaining r))"
    by (simp add: remaining_def)
qed

declare boxes_loop.simps [simp del]

definition parseBoxes :: "bytes \<Rightarrow> error + MOVBox list" where
  "parseBoxes buf =
     bind_result (boxes_loop buf (reader_of_buffer buf)) (\<lambda>(boxes, r). Inr boxes)"

text \<open>\<open>findBox\<close>: the first box of the type in a pre-order walk. \<open>findAllBoxes\<close>: all of
  them, in that order. An array of children, even an empty one, counts as present.\<close>

fun findBox :: "MOVBox list \<Rightarrow> string \<Rightarrow> MOVBox option" where
  "findBox [] t = None"
| "findBox (MOVBox ty sz off d ch # bs) t =
     (if ty = t then Some (MOVBox ty sz off d ch)
      else (case ch of
              None \<Rightarrow> findBox bs t
            | Some cs \<Rightarrow>
                (case findBox cs t of Some f \<Rightarrow> Some f | None \<Rightarrow> findBox bs t)))"

fun findAllBoxes :: "MOVBox list \<Rightarrow> string \<Rightarrow> MOVBox list" where
  "findAllBoxes [] t = []"
| "findAllBoxes (MOVBox ty sz off d ch # bs) t =
     (if ty = t then [MOVBox ty sz off d ch] else []) @
     (case ch of None \<Rightarrow> [] | Some cs \<Rightarrow> findAllBoxes cs t) @
     findAllBoxes bs t"

text \<open>\<open>box.children || []\<close>\<close>

definition children_or_empty :: "MOVBox \<Rightarrow> MOVBox list" where
  "children_or_empty b = (case box_children b of None \<Rightarrow> [] | Some cs \<Rightarrow> cs)"

section \<open>The sample table parser (sample-table.ts)\<close>

record stsc_entry =
  firstChunk :: nat
  entry_samplesPerChunk :: nat
  descriptionIndex :: nat

record stts_entry =
  count :: nat
  delta :: nat

record MOVSampleTable =
  sampleSizes :: "nat list"
  chunkOffsets :: "nat list"
  samplesPerChunk :: "stsc_entry list"
  timeToSample :: "stts_entry list"
  syncSamples :: "nat list option"

text \<open>Each table parser returns the empty list for a box without data, reads the
  version byte, the flags and the counts, then the entries; a read past the end of the
  box data throws.\<close>

definition parseSTSZ :: "bytes \<Rightarrow> MOVBox \<Rightarrow> error + nat list" where
  "parseSTSZ buf stszBox =
     (case box_data stszBox of
        None \<Rightarrow> Inr []
      | Some d \<Rightarrow>
          bind_result (readUint8 buf (reader_of_array d)) (\<lambda>(version, r1).
          bind_result (readUint24 buf r1) (\<lambda>(flags, r2).
          bind_result (readUint32 buf r2) (\<lambda>(uniformSize, r3).
          bind_result (readUint32 buf r3) (\<lambda>(sampleCount, r4).
            if uniformSize = 0 then
              bind_result (read_many sampleCount (readUint32 buf) r4) (\<lambda>(sizes, r5). Inr sizes)
            else Inr (replicate sampleCount uniformSize))))))"

definition read_offset :: "bool \<Rightarrow> bytes \<Rightarrow> ByteReader \<Rightarrow> error + (nat \<times> ByteReader)" where
  "read_offset is64Bit buf r =
     (if is64Bit
      then bind_result (readUint64 buf r) (\<lambda>(off, r1). Inr (number_of_bigint off, r1))
      else readUint32 buf r)"

definition parseSTCO :: "bytes \<Rightarrow> MOVBox \<Rightarrow> error + nat list" where
  "parseSTCO buf stcoBox =
     (case box_data stcoBox of
        None \<Rightarrow> Inr []
      | Some d \<Rightarrow>
          bind_result (readUint8 buf (reader_of_array d)) (\<lambda>(version, r1).
          bind_result (readUint24 buf r1) (\<lambda>(flags, r2).
          bind_result (readUint32 buf r2) (\<lambda>(entryCount, r3).
          bind_result (read_many entryCount (read_offset (box_type stcoBox = ''co64'') buf) r3)
            (\<lambda>(offsets, r4). Inr offsets)))))"

definition read_stsc_entry :: "bytes \<Rightarrow> ByteReader \<Rightarrow> error + (stsc_entry \<times> ByteReader)" where
  "read_stsc_entry buf r =
     bind_result (readUint32 buf r) (\<lambda>(fc, r1).
     bind_result (readUint32 buf r1) (\<lambda>(spc, r2).
     bind_result (readUint32 buf r2) (\<lambda>(di, r3).
       Inr (\<lparr>firstChunk = fc, entry_samplesPerChunk = spc, descriptionIndex = di\<rparr>, r3))))"

definition parseSTSC :: "bytes \<Rightarrow> MOVBox \<Rightarrow> error + stsc_entry list" where
  "parseSTSC buf stscBox =
     (case box_data stscBox of
        None \<Rightarrow> Inr []
      | Some d \<Rightarrow>
          bind_result (readUint8 buf (reader_of_array d)) (\<lambda>(version, r1).
          bind_result (readUint24 buf r1) (\<lambda>(flags, r2).
          bind_result (readUint32 buf r2) (\<lambda>(entryCount, r3).
          bind_result (read_many entryCount (read_stsc_entry buf) r3)
            (\<lambda>(entries, r4). Inr entries)))))"

definition read_stts_entry :: "bytes \<Rightarrow> ByteReader \<Rightarrow> error + (stts_entry \<times> ByteReader)" where
  "read_stts_entry buf r =
     bind_result (readUint32 buf r) (\<lambda>(c, r1).
     bind_result (readUint32 buf r1) (\<lambda>(d, r2).
       Inr (\<lparr>count = c, delta = d\<rparr>, r2)))"

definition parseSTTS :: "bytes \<Rightarrow> MOVBox \<Rightarrow> error + stts_entry list" where
  "parseSTTS buf sttsBox =
     (case box_data sttsBox of
        None \<Rightarrow> Inr []
      | Some d \<Rightarrow>
          bind_result (readUint8 buf (reader_of_array d)) (\<lambda>(version, r1).
          bind_result (readUint24 buf r1) (\<lambda>(flags, r2).
          bind_result (readUint32 buf r2) (\<lambda>(entryCount, r3).
          bind_result (read_many entryCount (read_stts_entry buf) r3)
            (\<lambda>(entries, r4). Inr entries)))))"

definition parseSTSS :: "bytes \<Rightarrow> MOVBox \<Rightarrow> error + nat list" where
  "parseSTSS buf stssBox =
     (case box_data stssBox of
        None \<Rightarrow> Inr []
      | Some d \<Rightarrow>
          bind_result (readUint8 buf (reader_of_array d)) (\<lambda>(version, r1).
          bind_result (readUint24 buf r1) (\<lambda>(flags, r2).
          bind_result (readUint32 buf r2) (\<lambda>(entryCount, r3).
          bind_result (read_many entryCount (readUint32 buf) r3)
            (\<lambda>(syncs, r4). Inr syncs)))))"

text \<open>A table whose box is missing keeps its initial value: the empty list, and
  \<open>undefined\<close> for \<open>syncSamples\<close>.\<close>

definition parse_if_found :: "MOVBox option \<Rightarrow> (MOVBox \<Rightarrow> error + 'a) \<Rightarrow> 'a \<Rightarrow> error + 'a" where
  "parse_if_found b p dflt = (case b of None \<Rightarrow> Inr dflt | Some x \<Rightarrow> p x)"

definition find_stco :: "MOVBox list \<Rightarrow> MOVBox option" where
  "find_stco cs = (case findBox cs ''stco'' of Some b \<Rightarrow> Some b | None \<Rightarrow> findBox cs ''co64'')"

definition parseSampleTable :: "bytes \<Rightarrow> MOVBox \<Rightarrow> error + MOVSampleTable option" where
  "parseSampleTable buf stblBox =
     (case box_children stblBox of
        None \<Rightarrow> Inr None
      | Some cs \<Rightarrow>
          bind_result (parse_if_found (findBox cs ''stsz'') (parseSTSZ buf) []) (\<lambda>sizes.
          bind_result (parse_if_found (find_stco cs) (parseSTCO buf) []) (\<lambda>offsets.
          bind_result (parse_if_found (findBox cs ''stsc'') (parseSTSC buf) []) (\<lambda>stsc.
          bind_result (parse_if_found (findBox cs ''stts'') (parseSTTS buf) []) (\<lambda>stts.
          bind_result (parse_if_found (findBox cs ''stss'')
                         (\<lambda>b. bind_result (parseSTSS buf b) (\<lambda>ss. Inr (Some ss))) None) (\<lambda>stss.
            Inr (Some \<lparr>sampleSizes = sizes, chunkOffsets = offsets, samplesPerChunk = stsc,
                        timeToSample = stts, syncSamples = stss\<rparr>)))))))"

subsection \<open>The chunk to sample mapping\<close>

text \<open>\<open>samplesPerChunk[e + 1]?.firstChunk || chunkCount + 1\<close>: the next entry's first
  chunk, unless there is no next entry or its first chunk is 0.\<close>

definition nextFirstChunk_of :: "stsc_entry list \<Rightarrow> nat \<Rightarrow> nat \<Rightarrow> nat" where
  "nextFirstChunk_of stsc e chunkCount =
     (if e + 1 < length stsc \<and> firstChunk (stsc ! (e + 1)) \<noteq> 0
      then firstChunk (stsc ! (e + 1)) else chunkCount + 1)"

text \<open>The loop of \<open>buildChunkToSampleMapping\<close>: \<open>n\<close> chunks are left, \<open>chunkIndex\<close> is
  the current one.\<close>

fun chunk_map_loop :: "stsc_entry list \<Rightarrow> nat \<Rightarrow> nat \<Rightarrow> nat \<Rightarrow> nat \<Rightarrow> nat \<Rightarrow> nat list" where
  "chunk_map_loop stsc chunkCount 0 chunkIndex currentEntry nextFirstChunk = []"
| "chunk_map_loop stsc chunkCount (Suc n) chunkIndex currentEntry nextFirstChunk =
     (if nextFirstChunk \<le> chunkIndex + 1 \<and> currentEntry + 1 < length stsc
      then entry_samplesPerChunk (stsc ! (currentEntry + 1)) #
           chunk_map_loop stsc chunkCount n (chunkIndex + 1) (currentEntry + 1)
             (nextFirstChunk_of stsc (currentEntry + 1) chunkCount)
      else entry_samplesPerChunk (stsc ! currentEntry) #
           chunk_map_loop stsc chunkCount n (chunkIndex + 1) currentEntry nextFirstChunk)"

definition buildChunkToSampleMapping :: "MOVSampleTable \<Rightarrow> nat list" where
  "buildChunkToSampleMapping st =
     (let chunkCount = length (chunkOffsets st) in
      if samplesPerChunk st = [] then replicate chunkCount 0
      else chunk_map_loop (samplesPerChunk st) chunkCount chunkCount 0 0
             (nextFirstChunk_of (samplesPerChunk st) 0 chunkCount))"

subsection \<open>The sample index\<close>

text \<open>The variables of \<open>buildSampleIndex\<close> that live across both loops.
  \<open>timeEntryRemaining\<close> is an integer: it is decremented past zero when the
  time-to-sample table runs out.\<close>

record index_state =
  sampleIndex :: nat
  currentTime :: nat
  timeEntryIndex :: nat
  timeEntryRemaining :: int
  currentDelta :: nat

definition initial_index_state :: "MOVSampleTable \<Rightarrow> index_state" where
  "initial_index_state st =
     \<lparr>sampleIndex = 0, currentTime = 0, timeEntryIndex = 0,
      timeEntryRemaining = (case timeToSample st of [] \<Rightarrow> 0 | e # _ \<Rightarrow> int (count e)),
      currentDelta = (case timeToSample st of [] \<Rightarrow> 0 | e # _ \<Rightarrow> delta e)\<rparr>"

text \<open>\<open>(ticks / timeScale) * 1000000\<close>\<close>

definition to_microseconds :: "nat \<Rightarrow> nat \<Rightarrow> number" where
  "to_microseconds ticks timeScale =
     js_mul (js_div (Fin (of_nat ticks)) (Fin (of_nat timeScale))) (Fin 1000000)"

definition is_keyframe :: "MOVSampleTable \<Rightarrow> nat \<Rightarrow> bool" where
  "is_keyframe st i =
     (case syncSamples st of None \<Rightarrow> True | Some ss \<Rightarrow> (i + 1) \<in> set ss)"

definition make_sample :: "MOVSampleTable \<Rightarrow> nat \<Rightarrow> nat \<Rightarrow> nat \<Rightarrow> index_state \<Rightarrow> MOVSample" where
  "make_sample st sid timeScale sampleOffset s =
     \<lparr>offset = sampleOffset,
      sample_size = sampleSizes st ! sampleIndex s,
      timestamp = to_microseconds (currentTime s) timeScale,
      duration = to_microseconds (currentDelta s) timeScale,
      isKeyframe = is_keyframe st (sampleIndex s),
      streamId = sid\<rparr>"

text \<open>The end of the inner loop body: count the sample, advance the clock, and move
  to the next time-to-sample entry when the current one is used up.\<close>

definition advance :: "MOVSampleTable \<Rightarrow> index_state \<Rightarrow> index_state" where
  "advance st s =
     (let s1 = s\<lparr>sampleIndex := sampleIndex s + 1,
                 currentTime := currentTime s + currentDelta s,
                 timeEntryRemaining := timeEntryRemaining s - 1\<rparr>
      in if timeEntryRemaining s1 = 0 \<and> timeEntryIndex s1 + 1 < length (timeToSample st)
         then s1\<lparr>timeEntryIndex := timeEntryIndex s1 + 1,
                 timeEntryRemaining := int (count (timeToSample st ! (timeEntryIndex s1 + 1))),
                 currentDelta := delta (timeToSample st ! (timeEntryIndex s1 + 1))\<rparr>
         else s1)"

text \<open>The inner loop, over the \<open>k\<close> samples left in the chunk; it breaks when the sample
  sizes run out.\<close>

fun chunk_samples :: "MOVSampleTable \<Rightarrow> nat \<Rightarrow> nat \<Rightarrow> nat \<Rightarrow> nat \<Rightarrow> nat \<Rightarrow> index_state
    \<Rightarrow> MOVSample list \<times> index_state" where
  "chunk_samples st sid timeScale chunkOffset 0 sampleOffsetInChunk s = ([], s)"
| "chunk_samples st sid timeScale chunkOffset (Suc k) sampleOffsetInChunk s =
     (if length (sampleSizes st) \<le> sampleIndex s then ([], s)
      else
        (case chunk_samples st sid timeScale chunkOffset k
                (sampleOffsetInChunk + sampleSizes st ! sampleIndex s) (advance st s) of
           (rest, s1) \<Rightarrow>
             (make_sample st sid timeScale (chunkOffset + sampleOffsetInChunk) s # rest, s1)))"

text \<open>The outer loop, over the chunks with their sample counts.\<close>

fun all_chunks :: "MOVSampleTable \<Rightarrow> nat \<Rightarrow> nat \<Rightarrow> (nat \<times> nat) list \<Rightarrow> index_state
    \<Rightarrow> MOVSample list" where
  "all_chunks st sid timeScale [] s = []"
| "all_chunks st sid timeScale ((chunkOffset, samplesInChunk) # cs) s =
     (case chunk_samples st sid timeScale chunkOffset samplesInChunk 0 s of
        (xs, s1) \<Rightarrow> xs @ all_chunks st sid timeScale cs s1)"

definition buildSampleIndex :: "MOVSampleTable \<Rightarrow> nat \<Rightarrow> nat \<Rightarrow> MOVSample list" where
  "buildSampleIndex st sid timeScale =
     (if sampleSizes st = [] then []
      else all_chunks st sid timeScale
             (zip (chunkOffsets st) (buildChunkToSampleMapping st)) (initial_index_state st))"

text \<open>The loop variables when the sample with index \<open>j\<close> is built.\<close>

definition state_at :: "MOVSampleTable \<Rightarrow> nat \<Rightarrow> index_state" where
  "state_at st j = (advance st ^^ j) (initial_index_state st)"

section \<open>The stream parser (stream-parser.ts)\<close>

datatype stream_kind = video | audio

record MOVStreamContext =
  stream_id :: nat
  stream_type :: stream_kind
  codecType :: string
  codecPrivate :: "Uint8Array option"
  stream_timeScale :: nat
  stream_duration :: nat
  width :: "nat option"
  height :: "nat option"
  frameRate :: "number option"
  avgFrameRate :: "number option"
  bitRate :: "number option"
  avgBitRate :: "number option"
  sampleRate :: "number option"
  channels :: "nat option"
  bitDepth :: "nat option"
  extraData :: "Uint8Array option"

record SampleDescription =
  sd_codecType :: string
  sd_codecPrivate :: "Uint8Array option"
  sd_extraData :: "Uint8Array option"
  sd_width :: "nat option"
  sd_height :: "nat option"
  sd_depth :: "nat option"
  sd_compressorName :: "string option"
  sd_sampleRate :: "number option"
  sd_channels :: "nat option"
  sd_bitDepth :: "nat option"

definition unknown_description :: SampleDescription where
  "unknown_description =
     \<lparr>sd_codecType = ''unknown'', sd_codecPrivate = None, sd_extraData = None,
      sd_width = None, sd_height = None, sd_depth = None, sd_compressorName = None,
      sd_sampleRate = None, sd_channels = None, sd_bitDepth = None\<rparr>"

text \<open>The movie and media headers share their layout up to the duration. Version 1 has
  64-bit times; the 64-bit duration goes through \<open>Number\<close>.\<close>

definition read_times :: "bytes \<Rightarrow> ByteReader \<Rightarrow> error + ((nat \<times> nat) \<times> ByteReader)" where
  "read_times buf r =
     bind_result (readUint8 buf r) (\<lambda>(version, r1).
     bind_result (readUint24 buf r1) (\<lambda>(flags, r2).
       if version = 1 then
         bind_result (readUint64 buf r2) (\<lambda>(creationTime, r3).
         bind_result (readUint64 buf r3) (\<lambda>(modificationTime, r4).
         bind_result (readUint32 buf r4) (\<lambda>(ts, r5).
         bind_result (readUint64 buf r5) (\<lambda>(dur, r6).
           Inr ((ts, number_of_bigint dur), r6)))))
       else
         bind_result (readUint32 buf r2) (\<lambda>(creationTime, r3).
         bind_result (readUint32 buf r3) (\<lambda>(modificationTime, r4).
         bind_result (readUint32 buf r4) (\<lambda>(ts, r5).
         bind_result (readUint32 buf r5) (\<lambda>(dur, r6).
           Inr ((ts, dur), r6)))))))"

definition parseMDHD :: "bytes \<Rightarrow> MOVBox \<Rightarrow> error + (nat \<times> nat)" where
  "parseMDHD buf mdhdBox =
     (case box_data mdhdBox of
        None \<Rightarrow> Inr (1000, 0)
      | Some d \<Rightarrow>
          bind_result (read_times buf (reader_of_array d)) (\<lambda>(td, r1).
          bind_result (readUint16 buf r1) (\<lambda>(language, r2).
          bind_result (readUint16 buf r2) (\<lambda>(quality, r3).
            Inr td))))"

definition read_name :: "bytes \<Rightarrow> ByteReader \<Rightarrow> error + string" where
  "read_name buf r =
     (if 0 < remaining r then
        bind_result (readUint8 buf r) (\<lambda>(nameLength, r1).
          if 0 < nameLength \<and> int nameLength \<le> remaining r1
          then bind_result (readString buf nameLength r1) (\<lambda>(name, r2). Inr name)
          else Inr [])
      else Inr [])"

definition parseHDLR :: "bytes \<Rightarrow> MOVBox \<Rightarrow> error + (string \<times> string)" where
  "parseHDLR buf hdlrBox =
     (case box_data hdlrBox of
        None \<Rightarrow> Inr ([], [])
      | Some d \<Rightarrow>
          bind_result (readUint8 buf (reader_of_array d)) (\<lambda>(version, r1).
          bind_result (readUint24 buf r1) (\<lambda>(flags, r2).
          bind_result (readFourCC buf r2) (\<lambda>(componentType, r3).
          bind_result (readFourCC buf r3) (\<lambda>(componentSubtype, r4).
          bind_result (readUint32 buf r4) (\<lambda>(componentManufacturer, r5).
          bind_result (readUint32 buf r5) (\<lambda>(componentFlags, r6).
          bind_result (readUint32 buf r6) (\<lambda>(componentFlagsMask, r7).
          bind_result (read_name buf r7) (\<lambda>name.
            Inr (componentSubtype, name))))))))))"

text \<open>The bytes of the entry after the fixed fields:
  \<open>entrySize - (reader.position - 8)\<close>, read as \<open>extraData\<close> when positive.\<close>

definition read_extraData :: "bytes \<Rightarrow> nat \<Rightarrow> ByteReader \<Rightarrow> error + Uint8Array option" where
  "read_extraData buf entrySize r =
     (let remainingBytes = int entrySize - (int (position r) - 8) in
      if 0 < remainingBytes
      then bind_result (readBytes buf (nat remainingBytes) r) (\<lambda>(d, r1). Inr (Some d))
      else Inr None)"

definition parseVideoSampleDescription ::
    "bytes \<Rightarrow> ByteReader \<Rightarrow> string \<Rightarrow> nat \<Rightarrow> error + SampleDescription" where
  "parseVideoSampleDescription buf r codec entrySize =
     bind_result (readUint16 buf r) (\<lambda>(version, r1).
     bind_result (readUint16 buf r1) (\<lambda>(revisionLevel, r2).
     bind_result (readUint32 buf r2) (\<lambda>(vendor, r3).
     bind_result (readUint32 buf r3) (\<lambda>(temporalQuality, r4).
     bind_result (readUint32 buf r4) (\<lambda>(spatialQuality, r5).
     bind_result (readUint16 buf r5) (\<lambda>(w, r6).
     bind_result (readUint16 buf r6) (\<lambda>(h, r7).
     bind_result (readFixed32 buf r7) (\<lambda>(horizResolution, r8).
     bind_result (readFixed32 buf r8) (\<lambda>(vertResolution, r9).
     bind_result (readUint32 buf r9) (\<lambda>(dataSize, r10).
     bind_result (readUint16 buf r10) (\<lambda>(frameCount, r11).
     bind_result (readUint8 buf r11) (\<lambda>(compressorNameLength, r12).
     bind_result (readString buf (min compressorNameLength 31) r12) (\<lambda>(compressorName, r13).
     bind_result (readUint16 buf (skip (31 - min compressorNameLength 31) r13)) (\<lambda>(depth, r14).
     bind_result (readInt16 buf r14) (\<lambda>(colorTableId, r15).
     bind_result (read_extraData buf entrySize r15) (\<lambda>extra.
       Inr (unknown_description\<lparr>sd_codecType := codec, sd_width := Some w, sd_height := Some h,
              sd_depth := Some depth, sd_compressorName := Some compressorName,
              sd_extraData := extra\<rparr>)))))))))))))))))"

definition parseAudioSampleDescription ::
    "bytes \<Rightarrow> ByteReader \<Rightarrow> string \<Rightarrow> nat \<Rightarrow> error + SampleDescription" where
  "parseAudioSampleDescription buf r codec entrySize =
     bind_result (readUint16 buf r) (\<lambda>(version, r1).
     bind_result (readUint16 buf r1) (\<lambda>(revisionLevel, r2).
     bind_result (readUint32 buf r2) (\<lambda>(vendor, r3).
     bind_result (readUint16 buf r3) (\<lambda>(ch, r4).
     bind_result (readUint16 buf r4) (\<lambda>(bd, r5).
     bind_result (readInt16 buf r5) (\<lambda>(compressionId, r6).
     bind_result (readUint16 buf r6) (\<lambda>(packetSize, r7).
     bind_result (readFixed16 buf r7) (\<lambda>(sr, r8).
     bind_result (read_extraData buf entrySize r8) (\<lambda>extra.
       Inr (unknown_description\<lparr>sd_codecType := codec, sd_sampleRate := Some sr,
              sd_channels := Some ch, sd_bitDepth := Some bd, sd_extraData := extra\<rparr>))))))))))"

definition parseSTSD :: "bytes \<Rightarrow> MOVBox \<Rightarrow> stream_kind \<Rightarrow> error + SampleDescription" where
  "parseSTSD buf stsdBox streamType =
     (case box_data stsdBox of
        None \<Rightarrow> Inr unknown_description
      | Some d \<Rightarrow>
          bind_result (readUint8 buf (reader_of_array d)) (\<lambda>(version, r1).
          bind_result (readUint24 buf r1) (\<lambda>(flags, r2).
          bind_result (readUint32 buf r2) (\<lambda>(entryCount, r3).
            if entryCount = 0 then Inr unknown_description
            else
              bind_result (readUint32 buf r3) (\<lambda>(entrySize, r4).
              bind_result (readFourCC buf r4) (\<lambda>(codec, r5).
              bind_result (readBytes buf 6 r5) (\<lambda>(reserved, r6).
              bind_result (readUint16 buf r6) (\<lambda>(dataReferenceIndex, r7).
                if streamType = video
                then parseVideoSampleDescription buf r7 codec entrySize
                else parseAudioSampleDescription buf r7 codec entrySize))))))))"

subsection \<open>Frame rates\<close>

text \<open>The accumulators of the loop of \<open>calculateFrameRate\<close>; \<open>commonDelta\<close> starts
  at \<open>-1\<close>.\<close>

record rate_state =
  totalSamples :: nat
  totalDuration :: nat
  commonDelta :: int
  isConstantFrameRate :: bool

definition rate_step :: "rate_state \<Rightarrow> nat \<Rightarrow> nat \<Rightarrow> rate_state" where
  "rate_step a sampleCount sampleDelta =
     \<lparr>totalSamples = totalSamples a + sampleCount,
      totalDuration = totalDuration a + sampleCount * sampleDelta,
      commonDelta = (if commonDelta a = - 1 then int sampleDelta else commonDelta a),
      isConstantFrameRate =
        (if commonDelta a = - 1 then isConstantFrameRate a
         else if commonDelta a \<noteq> int sampleDelta then False else isConstantFrameRate a)\<rparr>"

fun rate_loop :: "bytes \<Rightarrow> nat \<Rightarrow> rate_state \<Rightarrow> ByteReader \<Rightarrow> error + rate_state" where
  "rate_loop buf 0 a r = Inr a"
| "rate_loop buf (Suc n) a r =
     (case readUint32 buf r of
        Inl e \<Rightarrow> Inl e
      | Inr (sampleCount, r1) \<Rightarrow>
          (case readUint32 buf r1 of
             Inl e \<Rightarrow> Inl e
           | Inr (sampleDelta, r2) \<Rightarrow> rate_loop buf n (rate_step a sampleCount sampleDelta) r2))"

text \<open>\<open>Math.round(x * 1000) / 1000\<close>\<close>

definition round3 :: "number \<Rightarrow> number" where
  "round3 x = js_div (math_round (js_mul x (Fin 1000))) (Fin 1000)"

definition rates_of :: "rate_state \<Rightarrow> nat \<Rightarrow> (number \<times> number) option" where
  "rates_of a timeScale =
     (if totalSamples a = 0 \<or> totalDuration a = 0 then None
      else
        let avg = js_div (Fin (of_nat (totalSamples a * timeScale))) (Fin (of_nat (totalDuration a)));
            fr = (if isConstantFrameRate a \<and> 0 < commonDelta a
                  then js_div (Fin (of_nat timeScale)) (Fin (of_int (commonDelta a)))
                  else avg)
        in Some (round3 fr, round3 avg))"

definition calculateFrameRate :: "bytes \<Rightarrow> MOVBox \<Rightarrow> nat \<Rightarrow> error + (number \<times> number) option" where
  "calculateFrameRate buf stblBox timeScale =
     (case box_children stblBox of
        None \<Rightarrow> Inr None
      | Some cs \<Rightarrow>
          (case findBox cs ''stts'' of
             None \<Rightarrow> Inr None
           | Some sttsBox \<Rightarrow>
               (case box_data sttsBox of
                  None \<Rightarrow> Inr None
                | Some d \<Rightarrow>
                    bind_result (readUint8 buf (reader_of_array d)) (\<lambda>(version, r1).
                    bind_result (readUint24 buf r1) (\<lambda>(flags, r2).
                    bind_result (readUint32 buf r2) (\<lambda>(entryCount, r3).
                      if entryCount = 0 then Inr None
                      else
                        bind_result
                          (rate_loop buf entryCount
                             \<lparr>totalSamples = 0, totalDuration = 0, commonDelta = - 1,
                              isConstantFrameRate = True\<rparr> r3)
                          (\<lambda>a. Inr (rates_of a timeScale))))))))"

subsection \<open>Tracks\<close>

text \<open>\<open>findBox\<close> followed by the test that the box has children.\<close>

definition find_container :: "MOVBox list \<Rightarrow> string \<Rightarrow> (MOVBox \<times> MOVBox list) option" where
  "find_container cs t =
     (case findBox cs t of
        None \<Rightarrow> None
      | Some b \<Rightarrow> (case box_children b of None \<Rightarrow> None | Some bs \<Rightarrow> Some (b, bs)))"

definition handler_kind :: "string \<Rightarrow> stream_kind option" where
  "handler_kind t = (if t = ''vide'' then Some video else if t = ''soun'' then Some audio else None)"

definition stream_of :: "nat \<Rightarrow> stream_kind \<Rightarrow> SampleDescription \<Rightarrow> nat \<times> nat \<Rightarrow> MOVStreamContext" where
  "stream_of trackId streamType sampleDesc mediaHeader =
     \<lparr>stream_id = trackId, stream_type = streamType, codecType = sd_codecType sampleDesc,
      codecPrivate = sd_codecPrivate sampleDesc,
      stream_timeScale = fst mediaHeader, stream_duration = snd mediaHeader,
      width = None, height = None, frameRate = None, avgFrameRate = None,
      bitRate = None, avgBitRate = None, sampleRate = None, channels = None, bitDepth = None,
      extraData = sd_extraData sampleDesc\<rparr>"

definition parseTrack :: "bytes \<Rightarrow> MOVBox \<Rightarrow> nat \<Rightarrow> error + MOVStreamContext option" where
  "parseTrack buf trakBox trackId =
     (case box_children trakBox of
        None \<Rightarrow> Inr None
      | Some tcs \<Rightarrow>
     (case find_container tcs ''mdia'' of
        None \<Rightarrow> Inr None
      | Some (mdiaBox, mcs) \<Rightarrow>
     (case findBox mcs ''mdhd'' of
        None \<Rightarrow> Inr None
      | Some mdhdBox \<Rightarrow>
          bind_result (parseMDHD buf mdhdBox) (\<lambda>mediaHeader.
     (case findBox mcs ''hdlr'' of
        None \<Rightarrow> Inr None
      | Some hdlrBox \<Rightarrow>
          bind_result (parseHDLR buf hdlrBox) (\<lambda>handler.
     (case handler_kind (fst handler) of
        None \<Rightarrow> Inr None
      | Some streamType \<Rightarrow>
     (case find_container mcs ''minf'' of
        None \<Rightarrow> Inr None
      | Some (minfBox, ics) \<Rightarrow>
     (case find_container ics ''stbl'' of
        None \<Rightarrow> Inr None
      | Some (stblBox, scs) \<Rightarrow>
     (case findBox scs ''stsd'' of
        None \<Rightarrow> Inr None
      | Some stsdBox \<Rightarrow>
          bind_result (parseSTSD buf stsdBox streamType) (\<lambda>sampleDesc.
            let sc = stream_of trackId streamType sampleDesc mediaHeader in
            if streamType = video then
              bind_result (calculateFrameRate buf stblBox (fst mediaHeader)) (\<lambda>frameRates.
                Inr (Some (case frameRates of
                       None \<Rightarrow> sc\<lparr>width := sd_width sampleDesc, height := sd_height sampleDesc\<rparr>
                     | Some (fr, avg) \<Rightarrow>
                         sc\<lparr>width := sd_width sampleDesc, height := sd_height sampleDesc,
                            frameRate := Some fr, avgFrameRate := Some avg\<rparr>)))
            else
              Inr (Some (sc\<lparr>sampleRate := sd_sampleRate sampleDesc,
                            channels := sd_channels sampleDesc,
                            bitDepth := sd_bitDepth sampleDesc\<rparr>)))))))))))))"

section \<open>The demuxer (demuxer.ts)\<close>

record FTYPInfo =
  majorBrand :: string
  minorVersion :: nat
  compatibleBrands :: "string list"

record MOVContext =
  ftyp :: "FTYPInfo option"
  streams :: "MOVStreamContext list"
  sampleTables :: "nat \<rightharpoonup> MOVSampleTable"
  mdatOffset :: nat
  mdatSize :: int
  ctx_timeScale :: nat
  ctx_duration :: nat

text \<open>The options after the constructor has filled in the defaults.\<close>

record MOVDemuxerOptions =
  enableVideo :: bool
  enableAudio :: bool
  debug :: bool

definition default_options :: MOVDemuxerOptions where
  "default_options = \<lparr>enableVideo = True, enableAudio = True, debug = False\<rparr>"

record MOVDemuxer = cursor_state +
  buffer :: bytes
  movContext :: MOVContext
  options :: MOVDemuxerOptions

text \<open>The constructor.\<close>

definition new_MOVDemuxer :: "bytes \<Rightarrow> MOVDemuxerOptions \<Rightarrow> MOVDemuxer" where
  "new_MOVDemuxer buf opts =
     \<lparr>samples = [], currentSampleIndex = 0, buffer = buf,
      movContext = \<lparr>ftyp = None, streams = [], sampleTables = Map.empty, mdatOffset = 0,
                 mdatSize = 0, ctx_timeScale = 1000, ctx_duration = 0\<rparr>,
      options = opts\<rparr>"

text \<open>\<open>getSampleData\<close>: \<open>new Uint8Array(this.buffer, mdatOffset + sample.offset, sample.size)\<close>,
  a window of the file buffer. The constructor throws a \<open>RangeError\<close> when the window
  does not fit in the buffer.\<close>

definition getSampleData :: "MOVDemuxer \<Rightarrow> MOVSample \<Rightarrow> error + Uint8Array" where
  "getSampleData d sample =
     (let absoluteOffset = mdatOffset (movContext d) + offset sample in
      if absoluteOffset + sample_size sample \<le> length (buffer d)
      then Inr \<lparr>byteOffset = absoluteOffset, byteLength = sample_size sample\<rparr>
      else Inl RangeError)"

subsection \<open>File type and movie header\<close>

function brands_loop :: "bytes \<Rightarrow> ByteReader \<Rightarrow> error + string list" where
  "brands_loop buf r =
     (if 4 \<le> remaining r then
        (case readFourCC buf r of
           Inl e \<Rightarrow> Inl e
         | Inr (b, r1) \<Rightarrow>
             (case brands_loop buf r1 of Inl e \<Rightarrow> Inl e | Inr bs \<Rightarrow> Inr (b # bs)))
      else Inr [])"
  by pat_completeness auto

termination brands_loop
proof (relation "measure (\<lambda>(buf, r). nat (remaining r))")
  show "wf (measure (\<lambda>(buf, r). nat (remaining r)))" by simp
next
  fix buf :: bytes and r :: ByteReader and x a b
  assume c: "4 \<le> remaining r" and h: "readFourCC buf r = Inr x" "(a, b) = x"
  have "readFourCC buf r = Inr (a, b)" using h by simp
  from readFourCC_adv[OF this] c
  show "((buf, b), (buf, r)) \<in> measure (\<lambda>(buf, r). nat (remaining r))"
    by (simp add: remaining_def)
qed

declare brands_loop.simps [simp del]

definition parseFTYP :: "bytes \<Rightarrow> MOVBox \<Rightarrow> error + FTYPInfo option" where
  "parseFTYP buf ftypBox =
     (case box_data ftypBox of
        None \<Rightarrow> Inr None
      | Some d \<Rightarrow>
          bind_result (readFourCC buf (reader_of_array d)) (\<lambda>(major, r1).
          bind_result (readUint32 buf r1) (\<lambda>(minor, r2).
          bind_result (brands_loop buf r2) (\<lambda>brands.
            Inr (Some \<lparr>majorBrand = major, minorVersion = minor, compatibleBrands = brands\<rparr>)))))"

definition parseMVHD :: "bytes \<Rightarrow> MOVBox \<Rightarrow> error + (nat \<times> nat) option" where
  "parseMVHD buf mvhdBox =
     (case box_data mvhdBox of
        None \<Rightarrow> Inr None
      | Some d \<Rightarrow>
          bind_result (read_times buf (reader_of_array d)) (\<lambda>(td, r1).
          bind_result (readFixed32 buf r1) (\<lambda>(rate, r2).
          bind_result (readFixed16 buf r2) (\<lambda>(volume, r3).
            Inr (Some td)))))"

subsection \<open>Sorting and bit rates\<close>

text \<open>
  \<open>Array.prototype.sort\<close> with the comparator \<open>(a, b) => a.timestamp - b.timestamp\<close>.
  The sort of the language is stable, and a comparator result that is NaN counts as 0.
  With a consistent comparator the result is the one stable sorted arrangement, which
  insertion from the right computes; with NaN or infinite timestamps the comparator is
  not consistent and the language leaves the order to the implementation.
\<close>

definition compare_timestamp :: "MOVSample \<Rightarrow> MOVSample \<Rightarrow> number" where
  "compare_timestamp a b = js_sub (timestamp a) (timestamp b)"

fun insort_by :: "('a \<Rightarrow> 'a \<Rightarrow> number) \<Rightarrow> 'a \<Rightarrow> 'a list \<Rightarrow> 'a list" where
  "insort_by cmp x [] = [x]"
| "insort_by cmp x (y # ys) =
     (if js_lt (Fin 0) (cmp x y) then y # insort_by cmp x ys else x # y # ys)"

definition array_sort :: "('a \<Rightarrow> 'a \<Rightarrow> number) \<Rightarrow> 'a list \<Rightarrow> 'a list" where
  "array_sort cmp xs = foldr (insort_by cmp) xs []"

definition bit_rate_of :: "MOVSample list \<Rightarrow> MOVStreamContext \<Rightarrow> MOVStreamContext" where
  "bit_rate_of all_samples s =
     (let streamSamples = filter (\<lambda>x. streamId x = stream_id s) all_samples in
      if streamSamples = [] then s
      else
        let totalDataSize = sum_list (map sample_size streamSamples);
            durationInSeconds = js_div (Fin (of_nat (stream_duration s)))
                                       (Fin (of_nat (stream_timeScale s)))
        in if js_gt durationInSeconds (Fin 0)
           then let avg = math_round (js_div (Fin (of_nat (totalDataSize * 8))) durationInSeconds)
                in s\<lparr>avgBitRate := Some avg, bitRate := Some avg\<rparr>
           else s)"

definition calculateBitRates :: "MOVSample list \<Rightarrow> MOVStreamContext list \<Rightarrow> MOVStreamContext list" where
  "calculateBitRates all_samples ss = map (bit_rate_of all_samples) ss"

subsection \<open>Initialisation\<close>

definition enabled :: "MOVDemuxerOptions \<Rightarrow> MOVStreamContext \<Rightarrow> bool" where
  "enabled opts s =
     ((stream_type s = video \<and> enableVideo opts) \<or> (stream_type s = audio \<and> enableAudio opts))"

text \<open>The sample table box of a track, found through \<open>mdia\<close> and \<open>minf\<close> with
  \<open>box?.children || []\<close> at each step.\<close>

definition find_stbl :: "MOVBox \<Rightarrow> MOVBox option" where
  "find_stbl trakBox =
     (let mdiaBox = findBox (children_or_empty trakBox) ''mdia'';
          minfBox = findBox (case mdiaBox of None \<Rightarrow> [] | Some b \<Rightarrow> children_or_empty b) ''minf''
      in findBox (case minfBox of None \<Rightarrow> [] | Some b \<Rightarrow> children_or_empty b) ''stbl'')"

text \<open>What the loop over the tracks builds: the kept streams, their sample tables and
  the samples, in the order they are pushed.\<close>

record track_state =
  ts_streams :: "MOVStreamContext list"
  ts_tables :: "nat \<rightharpoonup> MOVSampleTable"
  ts_samples :: "MOVSample list"

definition track_step :: "bytes \<Rightarrow> MOVDemuxerOptions \<Rightarrow> nat \<Rightarrow> MOVBox \<Rightarrow> track_state
    \<Rightarrow> error + track_state" where
  "track_step buf opts i trakBox a =
     bind_result (parseTrack buf trakBox i) (\<lambda>st.
       case st of
         None \<Rightarrow> Inr a
       | Some stream \<Rightarrow>
           if enabled opts stream then
             (let a1 = a\<lparr>ts_streams := ts_streams a @ [stream]\<rparr> in
              case find_stbl trakBox of
                None \<Rightarrow> Inr a1
              | Some stblBox \<Rightarrow>
                  bind_result (parseSampleTable buf stblBox) (\<lambda>tbl.
                    case tbl of
                      None \<Rightarrow> Inr a1
                    | Some sampleTable \<Rightarrow>
                        Inr (a1\<lparr>ts_tables := (ts_tables a1)(stream_id stream \<mapsto> sampleTable),
                                 ts_samples := ts_samples a1 @
                                   buildSampleIndex sampleTable (stream_id stream)
                                     (stream_timeScale stream)\<rparr>)))
           else Inr a)"

fun tracks_loop :: "bytes \<Rightarrow> MOVDemuxerOptions \<Rightarrow> nat \<Rightarrow> MOVBox list \<Rightarrow> track_state
    \<Rightarrow> error + track_state" where
  "tracks_loop buf opts i [] a = Inr a"
| "tracks_loop buf opts i (trakBox # rest) a =
     (case track_step buf opts i trakBox a of
        Inl e \<Rightarrow> Inl e
      | Inr a1 \<Rightarrow> tracks_loop buf opts (i + 1) rest a1)"

text \<open>The steps of \<open>init\<close> that can throw or that read the box tree: the file type,
  the movie header, the tracks, the media data box. A step that finds no box keeps what
  the demuxer holds.\<close>

definition ftyp_stage :: "MOVDemuxer \<Rightarrow> MOVBox list \<Rightarrow> error + FTYPInfo option" where
  "ftyp_stage d boxes =
     (case findBox boxes ''ftyp'' of
        None \<Rightarrow> Inr (ftyp (movContext d))
      | Some ftypBox \<Rightarrow>
          bind_result (parseFTYP (buffer d) ftypBox) (\<lambda>info.
            Inr (case info of None \<Rightarrow> ftyp (movContext d) | Some i \<Rightarrow> Some i)))"

definition mvhd_stage :: "MOVDemuxer \<Rightarrow> MOVBox \<Rightarrow> error + (nat \<times> nat)" where
  "mvhd_stage d moovBox =
     (case findBox (children_or_empty moovBox) ''mvhd'' of
        None \<Rightarrow> Inr (ctx_timeScale (movContext d), ctx_duration (movContext d))
      | Some mvhdBox \<Rightarrow>
          bind_result (parseMVHD (buffer d) mvhdBox) (\<lambda>movieHeader.
            case movieHeader of
              None \<Rightarrow> Inl (Error ''Invalid mvhd box'')
            | Some td \<Rightarrow> Inr td))"

definition tracks_stage :: "MOVDemuxer \<Rightarrow> MOVBox \<Rightarrow> error + track_state" where
  "tracks_stage d moovBox =
     tracks_loop (buffer d) (options d) 0 (findAllBoxes (children_or_empty moovBox) ''trak'')
       \<lparr>ts_streams = streams (movContext d), ts_tables = sampleTables (movContext d),
        ts_samples = samples d\<rparr>"

definition mdat_stage :: "MOVDemuxer \<Rightarrow> MOVBox list \<Rightarrow> nat \<times> int" where
  "mdat_stage d boxes =
     (case findBox boxes ''mdat'' of
        None \<Rightarrow> (mdatOffset (movContext d), mdatSize (movContext d))
      | Some mdatBox \<Rightarrow> (box_offset mdatBox + 8, int (box_size mdatBox) - 8))"

text \<open>\<open>init\<close>, in the order of the source: the boxes, the file type, the movie box, the
  movie header, the tracks, the media data box, the sort, the bit rates. A rejected
  promise is an error value.\<close>

definition init :: "MOVDemuxer \<Rightarrow> error + MOVDemuxer" where
  "init d =
     bind_result (parseBoxes (buffer d)) (\<lambda>boxes.
     bind_result (ftyp_stage d boxes) (\<lambda>ftypInfo.
       case findBox boxes ''moov'' of
         None \<Rightarrow> Inl (Error ''No moov box found'')
       | Some moovBox \<Rightarrow>
           bind_result (mvhd_stage d moovBox) (\<lambda>header.
           bind_result (tracks_stage d moovBox) (\<lambda>tracks.
             let sorted_samples = array_sort compare_timestamp (ts_samples tracks) in
             Inr (d\<lparr>samples := sorted_samples,
                    movContext :=
                      \<lparr>ftyp = ftypInfo,
                       streams = calculateBitRates sorted_samples (ts_streams tracks),
                       sampleTables = ts_tables tracks,
                       mdatOffset = fst (mdat_stage d boxes),
                       mdatSize = snd (mdat_stage d boxes),
                       ctx_timeScale = fst header, ctx_duration = snd header\<rparr>\<rparr>)))))"

section \<open>Test files\<close>

text \<open>
  A complete file of 280 bytes: an \<open>mdat\<close> box with four bytes of media data, then a
  \<open>moov\<close> box with a movie header (time scale 600, duration 1200) and one video track
  of two samples of two bytes each in one chunk at offset 0, 300 ticks apiece, the first
  one a sync sample.
\<close>

definition fixture :: bytes where
  "fixture =
    [0, 0, 0, 12, 109, 100, 97, 116, 170, 187, 204, 221, 0, 0, 1, 12,
     109, 111, 111, 118, 0, 0, 0, 36, 109, 118, 104, 100, 0, 0, 0, 0,
     0, 0, 0, 0, 0, 0, 0, 0, 0, 0, 2, 88, 0, 0, 4, 176,
     0, 1, 0, 0, 1, 0, 0, 0, 0, 0, 0, 224, 116, 114, 97, 107,
     0, 0, 0, 216, 109, 100, 105, 97, 0, 0, 0, 32, 109, 100, 104, 100,
     0, 0, 0, 0, 0, 0, 0, 0, 0, 0, 0, 0, 0, 0, 2, 88,
     0, 0, 4, 176, 0, 0, 0, 0, 0, 0, 0, 32, 104, 100, 108, 114,
     0, 0, 0, 0, 109, 104, 108, 114, 118, 105, 100, 101, 0, 0, 0, 0,
     0, 0, 0, 0, 0, 0, 0, 0, 0, 0, 0, 144, 109, 105, 110, 102,
     0, 0, 0, 136, 115, 116, 98, 108, 0, 0, 0, 16, 115, 116, 115, 100,
     0, 0, 0, 0, 0, 0, 0, 0, 0, 0, 0, 20, 115, 116, 115, 122,
     0, 0, 0, 0, 0, 0, 0, 2, 0, 0, 0, 2, 0, 0, 0, 20,
     115, 116, 99, 111, 0, 0, 0, 0, 0, 0, 0, 1, 0, 0, 0, 0,
     0, 0, 0, 28, 115, 116, 115, 99, 0, 0, 0, 0, 0, 0, 0, 1,
     0, 0, 0, 1, 0, 0, 0, 2, 0, 0, 0, 1, 0, 0, 0, 24,
     115, 116, 116, 115, 0, 0, 0, 0, 0, 0, 0, 1, 0, 0, 0, 2,
     0, 0, 1, 44, 0, 0, 0, 20, 115, 116, 115, 115, 0, 0, 0, 0,
     0, 0, 0, 1, 0, 0, 0, 1]"

text \<open>Its box tree, as \<open>parseBoxes\<close> returns it.\<close>

definition fixture_stbl :: MOVBox where
  "fixture_stbl = MOVBox ''stbl'' 136 144 None (Some
     [MOVBox ''stsd'' 16 152 (Some \<lparr>byteOffset = 160, byteLength = 8\<rparr>) None,
      MOVBox ''stsz'' 20 168 (Some \<lparr>byteOffset = 176, byteLength = 12\<rparr>) None,
      MOVBox ''stco'' 20 188 (Some \<lparr>byteOffset = 196, byteLength = 12\<rparr>) None,
      MOVBox ''stsc'' 28 208 (Some \<lparr>byteOffset = 216, byteLength = 20\<rparr>) None,
      MOVBox ''stts'' 24 236 (Some \<lparr>byteOffset = 244, byteLength = 16\<rparr>) None,
      MOVBox ''stss'' 20 260 (Some \<lparr>byteOffset = 268, byteLength = 12\<rparr>) None])"

definition fixture_trak :: MOVBox where
  "fixture_trak = MOVBox ''trak'' 224 56 None (Some
     [MOVBox ''mdia'' 216 64 None (Some
        [MOVBox ''mdhd'' 32 72 (Some \<lparr>byteOffset = 80, byteLength = 24\<rparr>) None,
         MOVBox ''hdlr'' 32 104 (Some \<lparr>byteOffset = 112, byteLength = 24\<rparr>) None,
         MOVBox ''minf'' 144 136 None (Some [fixture_stbl])])])"

definition fixture_mvhd :: MOVBox where
  "fixture_mvhd = MOVBox ''mvhd'' 36 20 (Some \<lparr>byteOffset = 28, byteLength = 28\<rparr>) None"

definition fixture_moov :: MOVBox where
  "fixture_moov = MOVBox ''moov'' 268 12 None (Some [fixture_mvhd, fixture_trak])"

definition fixture_mdat :: MOVBox where
  "fixture_mdat = MOVBox ''mdat'' 12 0 (Some \<lparr>byteOffset = 8, byteLength = 4\<rparr>) None"

definition fixture_boxes :: "MOVBox list" where
  "fixture_boxes = [fixture_mdat, fixture_moov]"

definition fixture_table :: MOVSampleTable where
  "fixture_table =
     \<lparr>sampleSizes = [2, 2], chunkOffsets = [0],
      samplesPerChunk = [\<lparr>firstChunk = 1, entry_samplesPerChunk = 2, descriptionIndex = 1\<rparr>],
      timeToSample = [\<lparr>count = 2, delta = 300\<rparr>], syncSamples = Some [1]\<rparr>"

definition fixture_samples :: "MOVSample list" where
  "fixture_samples =
     [\<lparr>offset = 0, sample_size = 2, timestamp = Fin 0, duration = Fin 500000,
       isKeyframe = True, streamId = 0\<rparr>,
      \<lparr>offset = 2, sample_size = 2, timestamp = Fin 500000, duration = Fin 500000,
       isKeyframe = False, streamId = 0\<rparr>]"

text \<open>A sample table box on its own, 132 bytes: three samples in two chunks, and an
  \<open>stss\<close> box with no entries.\<close>

definition bare_stbl :: bytes where
  "bare_stbl =
    [0, 0, 0, 132, 115, 116, 98, 108, 0, 0, 0, 20, 115, 116, 115, 122,
     0, 0, 0, 0, 0, 0, 0, 2, 0, 0, 0, 3, 0, 0, 0, 24,
     115, 116, 99, 111, 0, 0, 0, 0, 0, 0, 0, 2, 0, 0, 0, 40,
     0, 0, 0, 80, 0, 0, 0, 40, 115, 116, 115, 99, 0, 0, 0, 0,
     0, 0, 0, 2, 0, 0, 0, 1, 0, 0, 0, 2, 0, 0, 0, 1,
     0, 0, 0, 2, 0, 0, 0, 1, 0, 0, 0, 1, 0, 0, 0, 24,
     115, 116, 116, 115, 0, 0, 0, 0, 0, 0, 0, 1, 0, 0, 0, 3,
     0, 0, 0, 100, 0, 0, 0, 16, 115, 116, 115, 115, 0, 0, 0, 0,
     0, 0, 0, 0]"

definition bare_stbl_box :: MOVBox where
  "bare_stbl_box = MOVBox ''stbl'' 132 0 None (Some
     [MOVBox ''stsz'' 20 8 (Some \<lparr>byteOffset = 16, byteLength = 12\<rparr>) None,
      MOVBox ''stco'' 24 28 (Some \<lparr>byteOffset = 36, byteLength = 16\<rparr>) None,
      MOVBox ''stsc'' 40 52 (Some \<lparr>byteOffset = 60, byteLength = 32\<rparr>) None,
      MOVBox ''stts'' 24 92 (Some \<lparr>byteOffset = 100, byteLength = 16\<rparr>) None,
      MOVBox ''stss'' 16 116 (Some \<lparr>byteOffset = 124, byteLength = 8\<rparr>) None])"


text \<open>A box with the 64-bit extended size: the size field is 1, the large size 24, so
  the box is a 16-byte header with 8 bytes of payload. An empty box \<open>abcd\<close> follows.\<close>

definition extended_size_file :: bytes where
  "extended_size_file =
    [0, 0, 0, 1, 109, 100, 97, 116, 0, 0, 0, 0, 0, 0, 0, 24,
     1, 2, 3, 4, 5, 6, 7, 8, 0, 0, 0, 8, 97, 98, 99, 100]"

text \<open>A file with a file type box only; a file with an empty movie box only; a file
  whose movie box holds a movie header cut off after the version and flags.\<close>

definition ftyp_only_file :: bytes where
  "ftyp_only_file =
    [0, 0, 0, 16, 102, 116, 121, 112, 105, 115, 111, 109, 0, 0, 2, 0]"

definition moov_only_file :: bytes where
  "moov_only_file = [0, 0, 0, 8, 109, 111, 111, 118]"

definition short_mvhd_file :: bytes where
  "short_mvhd_file =
    [0, 0, 0, 20, 109, 111, 111, 118, 0, 0, 0, 12, 109, 118, 104, 100,
     0, 0, 0, 0]"

text \<open>The stream and the demuxer that \<open>init\<close> builds from the first test file.\<close>

definition fixture_stream :: MOVStreamContext where
  "fixture_stream =
     \<lparr>stream_id = 0, stream_type = video, codecType = ''unknown'', codecPrivate = None,
      stream_timeScale = 600, stream_duration = 1200, width = None, height = None,
      frameRate = Some (Fin 2), avgFrameRate = Some (Fin 2),
      bitRate = Some (Fin 16), avgBitRate = Some (Fin 16),
      sampleRate = None, channels = None, bitDepth = None, extraData = None\<rparr>"

definition fixture_demuxer :: MOVDemuxer where
  "fixture_demuxer =
     \<lparr>samples = fixture_samples, currentSampleIndex = 0, buffer = fixture,
      movContext = \<lparr>ftyp = None, streams = [fixture_stream],
                    sampleTables = [0 \<mapsto> fixture_table],
                    mdatOffset = 8, mdatSize = 4, ctx_timeScale = 600, ctx_duration = 1200\<rparr>,
      options = default_options\<rparr>"

section \<open>Evaluation of the parsers on the test files\<close>

text \<open>The rules below let the simplifier run the model on a concrete file: characters
  from bytes, the loops over a count unfolded one round at a time, and the bytes of a
  test file looked up without unfolding the file where only its length is asked for.\<close>

lemma char_of_nat_eq: "(char_of (n :: nat) = c) = (n mod 256 = (of_char c :: nat))"
  by (simp add: char_of_eq_iff take_bit_eq_mod)

lemmas char_of_eval = char_of_nat_eq[of "numeral k" for k] char_of_nat_eq[of 0] char_of_nat_eq[of 1]
     char_of_nat_eq[of "Suc 0"]

lemmas reader_eval = reader_of_buffer_def reader_of_array_def remaining_def skip_def array_bytes_def
  be_value_def get_uint_def readUint8_def readUint16_def readUint24_def readUint32_def readUint64_def
  signed_of_def readInt16_def readInt32_def readBytes_def readString_def readFourCC_def
  readFixed32_def readFixed16_def bind_result_def char_of_eval

lemmas box_eval = header_atom_def readBoxHeader_def containerTypes_def isContainerBox_def
  parseBox.simps container_loop.simps boxes_loop.simps parseBoxes_def
  number_of_bigint_def[of 0] number_of_bigint_def[of 1] number_of_bigint_def[of "numeral k" for k]


lemma read_many_unfold:
  "read_many n p r =
     (if n = 0 then Inr ([], r)
      else (case p r of Inl e \<Rightarrow> Inl e
            | Inr (x, r1) \<Rightarrow>
                (case read_many (n - 1) p r1 of Inl e \<Rightarrow> Inl e
                 | Inr (xs, r2) \<Rightarrow> Inr (x # xs, r2))))"
  by (cases n) (auto split: sum.splits)

lemma replicate_unfold: "replicate n x = (if n = 0 then [] else x # replicate (n - 1) x)"
  by (cases n) simp_all

lemma chunk_map_loop_unfold:
  "chunk_map_loop stsc chunkCount n chunkIndex currentEntry nextFirstChunk =
     (if n = 0 then []
      else if nextFirstChunk \<le> chunkIndex + 1 \<and> currentEntry + 1 < length stsc
      then entry_samplesPerChunk (stsc ! (currentEntry + 1)) #
           chunk_map_loop stsc chunkCount (n - 1) (chunkIndex + 1) (currentEntry + 1)
             (nextFirstChunk_of stsc (currentEntry + 1) chunkCount)
      else entry_samplesPerChunk (stsc ! currentEntry) #
           chunk_map_loop stsc chunkCount (n - 1) (chunkIndex + 1) currentEntry nextFirstChunk)"
  by (cases n) simp_all

lemma chunk_samples_unfold:
  "chunk_samples st sid timeScale chunkOffset k sampleOffsetInChunk s =
     (if k = 0 then ([], s)
      else if length (sampleSizes st) \<le> sampleIndex s then ([], s)
      else
        (case chunk_samples st sid timeScale chunkOffset (k - 1)
                (sampleOffsetInChunk + sampleSizes st ! sampleIndex s) (advance st s) of
           (rest, s1) \<Rightarrow>
             (make_sample st sid timeScale (chunkOffset + sampleOffsetInChunk) s # rest, s1)))"
  by (cases k) simp_all

lemma rate_loop_unfold:
  "rate_loop buf n a r =
     (if n = 0 then Inr a
      else (case readUint32 buf r of
              Inl e \<Rightarrow> Inl e
            | Inr (sampleCount, r1) \<Rightarrow>
                (case readUint32 buf r1 of
                   Inl e \<Rightarrow> Inl e
                 | Inr (sampleDelta, r2) \<Rightarrow>
                     rate_loop buf (n - 1) (rate_step a sampleCount sampleDelta) r2)))"
  by (cases n) (auto split: sum.splits)

lemmas table_eval = read_many_unfold replicate_unfold parseSTSZ_def parseSTCO_def parseSTSC_def parseSTTS_def parseSTSS_def
  read_offset_def read_stsc_entry_def read_stts_entry_def parse_if_found_def find_stco_def
  parseSampleTable_def

lemmas index_eval = chunk_map_loop_unfold chunk_samples_unfold replicate_unfold buildSampleIndex_def buildChunkToSampleMapping_def nextFirstChunk_of_def
  initial_index_state_def to_microseconds_def is_keyframe_def make_sample_def advance_def Let_def

lemma fixture_length: "length fixture = 280"
  by (simp add: fixture_def)

lemma fixture_drop: "drop k fixture = drop k
    [0, 0, 0, 12, 109, 100, 97, 116, 170, 187, 204, 221, 0, 0, 1, 12,
     109, 111, 111, 118, 0, 0, 0, 36, 109, 118, 104, 100, 0, 0, 0, 0,
     0, 0, 0, 0, 0, 0, 0, 0, 0, 0, 2, 88, 0, 0, 4, 176,
     0, 1, 0, 0, 1, 0, 0, 0, 0, 0, 0, 224, 116, 114, 97, 107,
     0, 0, 0, 216, 109, 100, 105, 97, 0, 0, 0, 32, 109, 100, 104, 100,
     0, 0, 0, 0, 0, 0, 0, 0, 0, 0, 0, 0, 0, 0, 2, 88,
     0, 0, 4, 176, 0, 0, 0, 0, 0, 0, 0, 32, 104, 100, 108, 114,
     0, 0, 0, 0, 109, 104, 108, 114, 118, 105, 100, 101, 0, 0, 0, 0,
     0, 0, 0, 0, 0, 0, 0, 0, 0, 0, 0, 144, 109, 105, 110, 102,
     0, 0, 0, 136, 115, 116, 98, 108, 0, 0, 0, 16, 115, 116, 115, 100,
     0, 0, 0, 0, 0, 0, 0, 0, 0, 0, 0, 20, 115, 116, 115, 122,
     0, 0, 0, 0, 0, 0, 0, 2, 0, 0, 0, 2, 0, 0, 0, 20,
     115, 116, 99, 111, 0, 0, 0, 0, 0, 0, 0, 1, 0, 0, 0, 0,
     0, 0, 0, 28, 115, 116, 115, 99, 0, 0, 0, 0, 0, 0, 0, 1,
     0, 0, 0, 1, 0, 0, 0, 2, 0, 0, 0, 1, 0, 0, 0, 24,
     115, 116, 116, 115, 0, 0, 0, 0, 0, 0, 0, 1, 0, 0, 0, 2,
     0, 0, 1, 44, 0, 0, 0, 20, 115, 116, 115, 115, 0, 0, 0, 0,
     0, 0, 0, 1, 0, 0, 0, 1]"
  by (simp add: fixture_def)

lemma fixture_take: "take k fixture = take k
    [0, 0, 0, 12, 109, 100, 97, 116, 170, 187, 204, 221, 0, 0, 1, 12,
     109, 111, 111, 118, 0, 0, 0, 36, 109, 118, 104, 100, 0, 0, 0, 0,
     0, 0, 0, 0, 0, 0, 0, 0, 0, 0, 2, 88, 0, 0, 4, 176,
     0, 1, 0, 0, 1, 0, 0, 0, 0, 0, 0, 224, 116, 114, 97, 107,
     0, 0, 0, 216, 109, 100, 105, 97, 0, 0, 0, 32, 109, 100, 104, 100,
     0, 0, 0, 0, 0, 0, 0, 0, 0, 0, 0, 0, 0, 0, 2, 88,
     0, 0, 4, 176, 0, 0, 0, 0, 0, 0, 0, 32, 104, 100, 108, 114,
     0, 0, 0, 0, 109, 104, 108, 114, 118, 105, 100, 101, 0, 0, 0, 0,
     0, 0, 0, 0, 0, 0, 0, 0, 0, 0, 0, 144, 109, 105, 110, 102,
     0, 0, 0, 136, 115, 116, 98, 108, 0, 0, 0, 16, 115, 116, 115, 100,
     0, 0, 0, 0, 0, 0, 0, 0, 0, 0, 0, 20, 115, 116, 115, 122,
     0, 0, 0, 0, 0, 0, 0, 2, 0, 0, 0, 2, 0, 0, 0, 20,
     115, 116, 99, 111, 0, 0, 0, 0, 0, 0, 0, 1, 0, 0, 0, 0,
     0, 0, 0, 28, 115, 116, 115, 99, 0, 0, 0, 0, 0, 0, 0, 1,
     0, 0, 0, 1, 0, 0, 0, 2, 0, 0, 0, 1, 0, 0, 0, 24,
     115, 116, 116, 115, 0, 0, 0, 0, 0, 0, 0, 1, 0, 0, 0, 2,
     0, 0, 1, 44, 0, 0, 0, 20, 115, 116, 115, 115, 0, 0, 0, 0,
     0, 0, 0, 1, 0, 0, 0, 1]"
  by (simp add: fixture_def)

lemmas fixture_eval = fixture_length fixture_drop fixture_take

lemma bare_stbl_length: "length bare_stbl = 132"
  by (simp add: bare_stbl_def)

lemma bare_stbl_drop: "drop k bare_stbl = drop k
    [0, 0, 0, 132, 115, 116, 98, 108, 0, 0, 0, 20, 115, 116, 115, 122,
     0, 0, 0, 0, 0, 0, 0, 2, 0, 0, 0, 3, 0, 0, 0, 24,
     115, 116, 99, 111, 0, 0, 0, 0, 0, 0, 0, 2, 0, 0, 0, 40,
     0, 0, 0, 80, 0, 0, 0, 40, 115, 116, 115, 99, 0, 0, 0, 0,
     0, 0, 0, 2, 0, 0, 0, 1, 0, 0, 0, 2, 0, 0, 0, 1,
     0, 0, 0, 2, 0, 0, 0, 1, 0, 0, 0, 1, 0, 0, 0, 24,
     115, 116, 116, 115, 0, 0, 0, 0, 0, 0, 0, 1, 0, 0, 0, 3,
     0, 0, 0, 100, 0, 0, 0, 16, 115, 116, 115, 115, 0, 0, 0, 0,
     0, 0, 0, 0]"
  by (simp add: bare_stbl_def)

lemma bare_stbl_take: "take k bare_stbl = take k
    [0, 0, 0, 132, 115, 116, 98, 108, 0, 0, 0, 20, 115, 116, 115, 122,
     0, 0, 0, 0, 0, 0, 0, 2, 0, 0, 0, 3, 0, 0, 0, 24,
     115, 116, 99, 111, 0, 0, 0, 0, 0, 0, 0, 2, 0, 0, 0, 40,
     0, 0, 0, 80, 0, 0, 0, 40, 115, 116, 115, 99, 0, 0, 0, 0,
     0, 0, 0, 2, 0, 0, 0, 1, 0, 0, 0, 2, 0, 0, 0, 1,
     0, 0, 0, 2, 0, 0, 0, 1, 0, 0, 0, 1, 0, 0, 0, 24,
     115, 116, 116, 115, 0, 0, 0, 0, 0, 0, 0, 1, 0, 0, 0, 3,
     0, 0, 0, 100, 0, 0, 0, 16, 115, 116, 115, 115, 0, 0, 0, 0,
     0, 0, 0, 0]"
  by (simp add: bare_stbl_def)

lemmas bare_stbl_eval = bare_stbl_length bare_stbl_drop bare_stbl_take


lemma parseBoxes_fixture: "parseBoxes fixture = Inr fixture_boxes"
  by (simp add: fixture_eval reader_eval box_eval fixture_boxes_def fixture_mdat_def
        fixture_moov_def fixture_mvhd_def fixture_trak_def fixture_stbl_def)

lemma parseBoxes_bare_stbl: "parseBoxes bare_stbl = Inr [bare_stbl_box]"
  by (simp add: bare_stbl_eval reader_eval box_eval bare_stbl_box_def)

lemma parseSampleTable_fixture: "parseSampleTable fixture fixture_stbl = Inr (Some fixture_table)"
  by (simp add: fixture_eval reader_eval table_eval fixture_stbl_def fixture_table_def)


lemma buildSampleIndex_fixture: "buildSampleIndex fixture_table 0 600 = fixture_samples"
  by (simp add: fixture_table_def fixture_samples_def index_eval fl_eval)

lemmas stream_eval = unknown_description_def read_times_def parseMDHD_def read_name_def parseHDLR_def
  read_extraData_def parseVideoSampleDescription_def parseAudioSampleDescription_def parseSTSD_def
  rate_step_def rate_loop_unfold round3_def rates_of_def calculateFrameRate_def find_container_def
  handler_kind_def stream_of_def parseTrack_def

lemmas demuxer_eval = new_MOVDemuxer_def default_options_def brands_loop.simps parseFTYP_def
  parseMVHD_def compare_timestamp_def array_sort_def bit_rate_of_def calculateBitRates_def
  enabled_def find_stbl_def children_or_empty_def track_step_def init_def js_sub_def js_gt_def
  ftyp_stage_def mvhd_stage_def tracks_stage_def mdat_stage_def

lemma parseTrack_fixture:
  "parseTrack fixture fixture_trak 0 =
     Inr (Some (fixture_stream\<lparr>bitRate := None, avgBitRate := None\<rparr>))"
  by (simp add: fixture_eval reader_eval stream_eval fixture_trak_def fixture_stbl_def
        fixture_stream_def fl_eval)

lemma parseMVHD_fixture: "parseMVHD fixture fixture_mvhd = Inr (Some (600, 1200))"
  by (simp add: fixture_eval reader_eval read_times_def parseMVHD_def fixture_mvhd_def fl_eval)

lemma find_fixture:
  "findBox fixture_boxes ''ftyp'' = None"
  "findBox fixture_boxes ''moov'' = Some fixture_moov"
  "findBox fixture_boxes ''mdat'' = Some fixture_mdat"
  "findBox (children_or_empty fixture_moov) ''mvhd'' = Some fixture_mvhd"
  "findAllBoxes (children_or_empty fixture_moov) ''trak'' = [fixture_trak]"
  "find_stbl fixture_trak = Some fixture_stbl"
  "box_offset fixture_mdat = 0"
  "box_size fixture_mdat = 12"
  by (simp_all add: fixture_boxes_def fixture_mdat_def fixture_moov_def fixture_mvhd_def
        fixture_trak_def fixture_stbl_def children_or_empty_def find_stbl_def)

lemma init_fixture: "init (new_MOVDemuxer fixture default_options) = Inr fixture_demuxer"
  by (simp add: init_def ftyp_stage_def mvhd_stage_def tracks_stage_def mdat_stage_def
        new_MOVDemuxer_def bind_result_def parseBoxes_fixture find_fixture
        parseMVHD_fixture track_step_def parseTrack_fixture parseSampleTable_fixture
        buildSampleIndex_fixture enabled_def default_options_def fixture_stream_def
        fixture_demuxer_def fixture_samples_def array_sort_def compare_timestamp_def js_sub_def
        calculateBitRates_def bit_rate_of_def js_gt_def fl_eval)

lemma init_moov_only:
  "init (new_MOVDemuxer moov_only_file default_options)
     = Inr (new_MOVDemuxer moov_only_file default_options)"
  by (simp add: moov_only_file_def reader_eval box_eval demuxer_eval)

lemma init_ftyp_only:
  "init (new_MOVDemuxer ftyp_only_file default_options) = Inl (Error ''No moov box found'')"
  by (simp add: ftyp_only_file_def reader_eval box_eval demuxer_eval)

lemma init_short_mvhd:
  "init (new_MOVDemuxer short_mvhd_file default_options) = Inl RangeError"
  by (simp add: short_mvhd_file_def reader_eval box_eval demuxer_eval stream_eval)

section \<open>The sample index\<close>

text \<open>The sample at position \<open>j\<close> of the index is built from the loop variables after
  \<open>j\<close> rounds, whatever the chunk layout.\<close>

lemma sampleIndex_advance [simp]: "sampleIndex (advance st s) = sampleIndex s + 1"
  by (simp add: advance_def Let_def)

lemma sampleIndex_funpow: "sampleIndex ((advance st ^^ j) s) = sampleIndex s + j"
  by (induction j) simp_all

lemma sampleIndex_state_at: "sampleIndex (state_at st j) = j"
  by (simp add: state_at_def sampleIndex_funpow initial_index_state_def)

lemma chunk_samples_trace:
  "chunk_samples st sid ts co k off s = (xs, s1) \<Longrightarrow>
     s1 = (advance st ^^ length xs) s \<and>
     (\<forall>j<length xs. \<exists>off'. xs ! j = make_sample st sid ts off' ((advance st ^^ j) s))"
proof (induction k arbitrary: off s xs s1)
  case 0
  then show ?case by simp
next
  case (Suc k)
  show ?case
  proof (cases "length (sampleSizes st) \<le> sampleIndex s")
    case True
    with Suc.prems show ?thesis by simp
  next
    case False
    obtain rest s2 where r: "chunk_samples st sid ts co k (off + sampleSizes st ! sampleIndex s)
         (advance st s) = (rest, s2)"
      by (cases "chunk_samples st sid ts co k (off + sampleSizes st ! sampleIndex s) (advance st s)")
    with Suc.prems False have xs: "xs = make_sample st sid ts (co + off) s # rest" and s1: "s1 = s2"
      by simp_all
    from Suc.IH[OF r] have ih1: "s2 = (advance st ^^ length rest) (advance st s)"
      and ih2: "\<forall>j<length rest. \<exists>off'. rest ! j = make_sample st sid ts off' ((advance st ^^ j) (advance st s))"
      by simp_all
    have a: "s1 = (advance st ^^ length xs) s"
      using ih1 s1 xs by (simp add: funpow_swap1)
    have b: "\<exists>off'. xs ! j = make_sample st sid ts off' ((advance st ^^ j) s)" if "j < length xs" for j
    proof (cases j)
      case 0
      then show ?thesis using xs by auto
    next
      case (Suc m)
      then have "m < length rest" using that xs by simp
      with ih2 obtain off' where "rest ! m = make_sample st sid ts off' ((advance st ^^ m) (advance st s))"
        by blast
      then show ?thesis using Suc xs by (auto simp: funpow_swap1)
    qed
    from a b show ?thesis by blast
  qed
qed

lemma all_chunks_trace:
  "j < length (all_chunks st sid ts cs s) \<Longrightarrow>
     \<exists>off'. all_chunks st sid ts cs s ! j = make_sample st sid ts off' ((advance st ^^ j) s)"
proof (induction cs arbitrary: s j)
  case Nil
  then show ?case by simp
next
  case (Cons c cs)
  obtain co n where c: "c = (co, n)" by (cases c)
  obtain xs s1 where x: "chunk_samples st sid ts co n 0 s = (xs, s1)"
    by (cases "chunk_samples st sid ts co n 0 s")
  note tr = chunk_samples_trace[OF x]
  have out: "all_chunks st sid ts (c # cs) s = xs @ all_chunks st sid ts cs s1"
    using c x by simp
  show ?case
  proof (cases "j < length xs")
    case True
    with tr out show ?thesis by (simp add: nth_append)
  next
    case False
    then have j2: "j - length xs < length (all_chunks st sid ts cs s1)"
      using Cons.prems out by simp
    from Cons.IH[OF j2] obtain off' where
      "all_chunks st sid ts cs s1 ! (j - length xs) =
         make_sample st sid ts off' ((advance st ^^ (j - length xs)) s1)" by blast
    moreover have "(advance st ^^ (j - length xs)) s1 = (advance st ^^ j) s"
    proof -
      have "(advance st ^^ (j - length xs + length xs)) s =
            (advance st ^^ (j - length xs)) ((advance st ^^ length xs) s)"
        by (simp only: funpow_add comp_def)
      then show ?thesis using tr False by simp
    qed
    ultimately show ?thesis using out False by (auto simp: nth_append)
  qed
qed

lemma buildSampleIndex_trace:
  assumes "j < length (buildSampleIndex st sid ts)"
  shows "\<exists>off'. buildSampleIndex st sid ts ! j = make_sample st sid ts off' (state_at st j)"
proof -
  have ne: "sampleSizes st \<noteq> []"
    using assms by (auto simp: buildSampleIndex_def)
  then show ?thesis
    using assms all_chunks_trace[of j st sid ts _ "initial_index_state st"]
    by (simp add: buildSampleIndex_def state_at_def)
qed

section \<open>Keyframes\<close>

lemma isKeyframe_index:
  assumes "i < length (buildSampleIndex st sid ts)"
  shows "isKeyframe (buildSampleIndex st sid ts ! i) =
         (case syncSamples st of None \<Rightarrow> True | Some ss \<Rightarrow> Suc i \<in> set ss)"
proof -
  from buildSampleIndex_trace[OF assms] obtain off' where
    "buildSampleIndex st sid ts ! i = make_sample st sid ts off' (state_at st i)" by blast
  then show ?thesis
    by (cases "syncSamples st") (simp_all add: make_sample_def is_keyframe_def sampleIndex_state_at)
qed

lemma parseSampleTable_syncSamples:
  assumes "parseSampleTable buf stblBox = Inr (Some st)"
  shows "case findBox (children_or_empty stblBox) ''stss'' of
           None \<Rightarrow> syncSamples st = None
         | Some b \<Rightarrow> (\<exists>ss. parseSTSS buf b = Inr ss \<and> syncSamples st = Some ss)"
proof -
  obtain cs where cs: "box_children stblBox = Some cs"
    using assms by (auto simp: parseSampleTable_def split: option.splits)
  from assms cs obtain stss where
    p: "parse_if_found (findBox cs ''stss'')
          (\<lambda>b. bind_result (parseSTSS buf b) (\<lambda>ss. Inr (Some ss))) None = Inr stss"
    and s: "syncSamples st = stss"
    by (auto simp: parseSampleTable_def bind_result_def split: sum.splits)
  show ?thesis
    using p s cs
    by (auto simp: parse_if_found_def children_or_empty_def bind_result_def
             split: option.splits sum.splits)
qed

text \<open>
  C8. A track whose sample table has no \<open>stss\<close> box has only keyframes; with an
  \<open>stss\<close> box, the sample at position \<open>i\<close> (counted from 0) is a keyframe exactly when
  its 1-based index \<open>i + 1\<close> is among the entries read from the box.
\<close>

theorem keyframe_flag_follows_stss:
  assumes "parseSampleTable buf stblBox = Inr (Some st)"
    and "i < length (buildSampleIndex st sid ts)"
  shows "isKeyframe (buildSampleIndex st sid ts ! i) =
         (case findBox (children_or_empty stblBox) ''stss'' of
            None \<Rightarrow> True
          | Some b \<Rightarrow> (case parseSTSS buf b of Inl e \<Rightarrow> False | Inr ss \<Rightarrow> Suc i \<in> set ss))"
  using parseSampleTable_syncSamples[OF assms(1)] isKeyframe_index[OF assms(2)]
  by (auto split: option.splits)

theorem keyframe_flag_follows_stss_witness:
  "parseSampleTable fixture fixture_stbl = Inr (Some fixture_table) \<and>
   1 < length (buildSampleIndex fixture_table 0 600) \<and>
   isKeyframe (buildSampleIndex fixture_table 0 600 ! 1) =
     (case findBox (children_or_empty fixture_stbl) ''stss'' of
        None \<Rightarrow> True
      | Some b \<Rightarrow> (case parseSTSS fixture b of Inl e \<Rightarrow> False | Inr ss \<Rightarrow> Suc 1 \<in> set ss)) \<and>
   \<not> isKeyframe (buildSampleIndex fixture_table 0 600 ! 1) \<and>
   isKeyframe (buildSampleIndex fixture_table 0 600 ! 0)"
proof -
  have h: "1 < length (buildSampleIndex fixture_table 0 600)"
    by (simp add: buildSampleIndex_fixture fixture_samples_def)
  have v: "\<not> isKeyframe (buildSampleIndex fixture_table 0 600 ! 1)"
    "isKeyframe (buildSampleIndex fixture_table 0 600 ! 0)"
    by (simp_all add: buildSampleIndex_fixture fixture_samples_def)
  from keyframe_flag_follows_stss[OF parseSampleTable_fixture h] parseSampleTable_fixture h v
  show ?thesis by blast
qed



section \<open>Seeking\<close>


lemma js_gt_not_le: "js_gt a t \<Longrightarrow> \<not> js_le a t"
  by (simp add: js_gt_def js_le_def)











section \<open>Box headers\<close>

text \<open>With a 32-bit size the atom starts where the size field starts and the header is 8
  bytes. With an extended size the header is 16 bytes, but the offset is computed after
  \<open>size\<close> has been overwritten, so it comes out 8 bytes late; the payload of a leaf box
  is measured from that offset, and is 8 bytes too long.\<close>

lemma readBoxHeader_plain_size:
  assumes "8 \<le> remaining r" and "readUint32 buf r = Inr (sz, r1)" and "sz \<noteq> 0" and "sz \<noteq> 1"
    and "readBoxHeader buf r = Inr (a, r2)"
  shows "\<exists>t. a = Some \<lparr>atom_type = t, atom_size = sz, atom_offset = position r\<rparr> \<and>
             position r2 = position r + 8"
proof -
  from assms obtain t r3 where f: "readFourCC buf r1 = Inr (t, r3)"
    by (auto simp: readBoxHeader_def bind_result_def split: sum.splits)
  have p1: "position r1 = position r + 4"
    using get_uint_adv[OF assms(2)[unfolded readUint32_def]] by simp
  have p3: "position r3 = position r + 8"
    using readFourCC_adv[OF f] p1 by simp
  have "readBoxHeader buf r = Inr (Some (header_atom t sz r3), r3)"
    using assms(1-4) f by (simp add: readBoxHeader_def bind_result_def)
  with assms(5) have "a = Some (header_atom t sz r3)" "r2 = r3" by auto
  then show ?thesis using p3 assms(4) by (simp add: header_atom_def)
qed

lemma readBoxHeader_extended_size:
  assumes "readUint32 buf r = Inr (1, r1)"
    and "readBoxHeader buf r = Inr (Some atom, r2)" and "atom_size atom \<noteq> 1"
  shows "atom_offset atom = position r + 8 \<and> position r2 = position r + 16"
proof -
  have nr: "\<not> remaining r < 8"
    using assms(2) by (auto simp: readBoxHeader_def)
  from assms nr obtain t r3 where f: "readFourCC buf r1 = Inr (t, r3)"
    by (auto simp: readBoxHeader_def bind_result_def split: sum.splits)
  have p1: "position r1 = position r + 4"
    using get_uint_adv[OF assms(1)[unfolded readUint32_def]] by simp
  have p3: "position r3 = position r + 8"
    using readFourCC_adv[OF f] p1 by simp
  have nr3: "\<not> remaining r3 < 8"
    using assms(1,2) nr f by (auto simp: readBoxHeader_def bind_result_def split: if_splits)
  from assms(1,2) nr f nr3 obtain x r4 where g: "readUint64 buf r3 = Inr (x, r4)"
    and a: "atom = header_atom t (number_of_bigint x) r4" and r: "r2 = r4"
    by (auto simp: readBoxHeader_def bind_result_def split: sum.splits)
  have p4: "position r4 = position r + 16"
    using get_uint_adv[OF g[unfolded readUint64_def]] p3 by simp
  show ?thesis
    using a r p4 assms(3) by (simp add: header_atom_def)
qed

lemma parseBox_leaf_payload:
  assumes "parseBox buf atom r = Inr (Some b, r1)" and "\<not> isContainerBox (atom_type atom)"
  shows "box_offset b = atom_offset atom \<and> box_size b = atom_size atom \<and>
         box_data b = Some \<lparr>byteOffset = byteOffset (view r) + position r,
                             byteLength = nat (int (atom_size atom)
                                              - (int (position r) - int (atom_offset atom)))\<rparr>"
  using assms
  by (auto simp: parseBox.simps Let_def readBytes_def split: if_splits sum.splits)

text \<open>
  C5. A box whose size field is 1 and whose 64-bit size is 24 starts at offset 0 and has a
  16-byte header and 8 bytes of payload. \<open>parseBoxes\<close> records it at offset 8 with a
  payload of 16 bytes, which takes in the header of the box that follows; that box is
  never parsed.
\<close>

theorem extended_size_box_misparsed:
  "parseBoxes extended_size_file =
     Inr [MOVBox ''mdat'' 24 8 (Some \<lparr>byteOffset = 16, byteLength = 16\<rparr>) None]"
  by (simp add: extended_size_file_def reader_eval box_eval fl_eval)

section \<open>Failures of init\<close>

text \<open>A failed read is a \<open>RangeError\<close>.\<close>

lemma get_uint_error: "get_uint n buf r = Inl e \<Longrightarrow> e = RangeError"
  by (auto simp: get_uint_def split: if_splits)

lemma readBytes_error: "readBytes buf n r = Inl e \<Longrightarrow> e = RangeError"
  by (auto simp: readBytes_def split: if_splits)

lemma readFourCC_error: "readFourCC buf r = Inl e \<Longrightarrow> e = RangeError"
  by (auto simp: readFourCC_def readString_def bind_result_def split: sum.splits
           dest: readBytes_error)

lemma brands_loop_error: "brands_loop buf r = Inl e \<Longrightarrow> e = RangeError"
proof (induction buf r rule: brands_loop.induct)
  case (1 buf r)
  have u: "(if 4 \<le> remaining r then
        (case readFourCC buf r of
           Inl e \<Rightarrow> Inl e
         | Inr (b, r1) \<Rightarrow>
             (case brands_loop buf r1 of Inl e \<Rightarrow> Inl e | Inr bs \<Rightarrow> Inr (b # bs)))
      else Inr []) = Inl e"
    using "1.prems" by (subst (asm) brands_loop.simps)
  show ?case
  proof (cases "4 \<le> remaining r")
    case False
    with u show ?thesis by simp
  next
    case True
    show ?thesis
    proof (cases "readFourCC buf r")
      case (Inl e')
      with True u have "e = e'" by simp
      with Inl readFourCC_error show ?thesis by blast
    next
      case (Inr p)
      obtain b r1 where p: "p = (b, r1)" by (cases p)
      with True Inr u have "brands_loop buf r1 = Inl e"
        by (simp split: sum.splits)
      with "1.IH"[OF True Inr p[symmetric]] show ?thesis by blast
    qed
  qed
qed

lemma parseFTYP_error: "parseFTYP buf b = Inl e \<Longrightarrow> e = RangeError"
  by (auto simp: parseFTYP_def bind_result_def readUint32_def
           split: option.splits sum.splits
           dest!: readFourCC_error get_uint_error brands_loop_error)

text \<open>
  C7 (amended). When the parsed box tree has no \<open>moov\<close> box, \<open>init\<close> fails. The error
  is a plain \<open>Error\<close> with the message \<open>No moov box found\<close>; it is a \<open>RangeError\<close>
  instead when the tree has an \<open>ftyp\<close> box too short to parse, which is read first.
\<close>

theorem init_without_moov:
  assumes "parseBoxes (buffer d) = Inr boxes" and "findBox boxes ''moov'' = None"
  shows "init d = Inl (Error ''No moov box found'') \<or>
         (init d = Inl RangeError \<and>
          (\<exists>b. findBox boxes ''ftyp'' = Some b \<and> parseFTYP (buffer d) b = Inl RangeError))"
proof (cases "findBox boxes ''ftyp''")
  case None
  with assms show ?thesis by (simp add: init_def ftyp_stage_def)
next
  case (Some b)
  show ?thesis
  proof (cases "parseFTYP (buffer d) b")
    case (Inl e)
    then have "e = RangeError" by (rule parseFTYP_error)
    with Inl Some assms show ?thesis by (simp add: init_def ftyp_stage_def)
  next
    case (Inr info)
    with Some assms show ?thesis by (simp add: init_def ftyp_stage_def)
  qed
qed

theorem init_without_moov_witness:
  "parseBoxes (buffer (new_MOVDemuxer ftyp_only_file default_options)) =
     Inr [MOVBox ''ftyp'' 16 0 (Some \<lparr>byteOffset = 8, byteLength = 8\<rparr>) None] \<and>
   findBox [MOVBox ''ftyp'' 16 0 (Some \<lparr>byteOffset = 8, byteLength = 8\<rparr>) None] ''moov'' = None \<and>
   (init (new_MOVDemuxer ftyp_only_file default_options) = Inl (Error ''No moov box found'') \<or>
    (init (new_MOVDemuxer ftyp_only_file default_options) = Inl RangeError \<and>
     (\<exists>b. findBox [MOVBox ''ftyp'' 16 0 (Some \<lparr>byteOffset = 8, byteLength = 8\<rparr>) None] ''ftyp''
            = Some b \<and>
          parseFTYP (buffer (new_MOVDemuxer ftyp_only_file default_options)) b = Inl RangeError)))"
proof -
  have p: "parseBoxes (buffer (new_MOVDemuxer ftyp_only_file default_options)) =
     Inr [MOVBox ''ftyp'' 16 0 (Some \<lparr>byteOffset = 8, byteLength = 8\<rparr>) None]"
    by (simp add: new_MOVDemuxer_def ftyp_only_file_def reader_eval box_eval)
  have f: "findBox [MOVBox ''ftyp'' 16 0 (Some \<lparr>byteOffset = 8, byteLength = 8\<rparr>) None] ''moov''
      = None"
    by simp
  from init_without_moov[OF p f] p f show ?thesis by blast
qed

text \<open>C7 as stated fails on the empty file: the error is not the typed
  \<open>MissingRequiredBox\<close> error.\<close>

theorem init_without_moov_counterexample:
  "parseBoxes [] = Inr [] \<and> findBox [] ''moov'' = None \<and>
   init (new_MOVDemuxer [] default_options) = Inl (Error ''No moov box found'') \<and>
   init (new_MOVDemuxer [] default_options) \<noteq> Inl (missingRequiredBox ''moov'')"
  by (simp add: reader_eval box_eval demuxer_eval missingRequiredBox_def)


lemma init_stages:
  assumes "parseBoxes (buffer d) = Inr boxes" and "findBox boxes ''moov'' = Some moovBox"
  shows "init d =
     bind_result (ftyp_stage d boxes) (\<lambda>ftypInfo.
     bind_result (mvhd_stage d moovBox) (\<lambda>header.
     bind_result (tracks_stage d moovBox) (\<lambda>tracks.
       Inr (d\<lparr>samples := array_sort compare_timestamp (ts_samples tracks),
              movContext :=
                \<lparr>ftyp = ftypInfo,
                 streams = calculateBitRates (array_sort compare_timestamp (ts_samples tracks))
                             (ts_streams tracks),
                 sampleTables = ts_tables tracks,
                 mdatOffset = fst (mdat_stage d boxes), mdatSize = snd (mdat_stage d boxes),
                 ctx_timeScale = fst header, ctx_duration = snd header\<rparr>\<rparr>))))"
  using assms
  by (simp add: init_def Let_def)


text \<open>
  C6 (amended). With a \<open>moov\<close> box present: when an \<open>mvhd\<close> box is found in it and
  cannot be parsed, \<open>init\<close> fails; when no \<open>mvhd\<close> box is found, \<open>init\<close> does not
  fail for that reason, and a demuxer it returns keeps the time scale and duration it had
  (1000 and 0 from the constructor).
\<close>

theorem init_mvhd_cases:
  assumes "parseBoxes (buffer d) = Inr boxes" and "findBox boxes ''moov'' = Some moovBox"
  shows "(findBox (children_or_empty moovBox) ''mvhd'' = Some mvhdBox \<and>
          (parseMVHD (buffer d) mvhdBox = Inl e \<or> parseMVHD (buffer d) mvhdBox = Inr None)
            \<longrightarrow> (\<exists>e'. init d = Inl e')) \<and>
         (findBox (children_or_empty moovBox) ''mvhd'' = None \<and> init d = Inr d'
            \<longrightarrow> ctx_timeScale (movContext d') = ctx_timeScale (movContext d) \<and>
                ctx_duration (movContext d') = ctx_duration (movContext d))"
proof (intro conjI impI)
  assume a: "findBox (children_or_empty moovBox) ''mvhd'' = Some mvhdBox \<and>
          (parseMVHD (buffer d) mvhdBox = Inl e \<or> parseMVHD (buffer d) mvhdBox = Inr None)"
  then obtain e1 where "mvhd_stage d moovBox = Inl e1"
    by (auto simp: mvhd_stage_def bind_result_def)
  then show "\<exists>e'. init d = Inl e'"
    unfolding init_stages[OF assms]
    by (cases "ftyp_stage d boxes") (simp_all add: bind_result_def)
next
  assume a: "findBox (children_or_empty moovBox) ''mvhd'' = None \<and> init d = Inr d'"
  then have m: "mvhd_stage d moovBox = Inr (ctx_timeScale (movContext d), ctx_duration (movContext d))"
    by (simp add: mvhd_stage_def)
  from a have "init d = Inr d'" by simp
  then have "ctx_timeScale (movContext d') = ctx_timeScale (movContext d) \<and>
             ctx_duration (movContext d') = ctx_duration (movContext d)"
    unfolding init_stages[OF assms] m
    by (auto simp: bind_result_def split: sum.splits)
  then show "ctx_timeScale (movContext d') = ctx_timeScale (movContext d)"
    and "ctx_duration (movContext d') = ctx_duration (movContext d)" by simp_all
qed

theorem init_mvhd_cases_witness:
  "parseBoxes (buffer (new_MOVDemuxer short_mvhd_file default_options)) =
     Inr [MOVBox ''moov'' 20 0 None
            (Some [MOVBox ''mvhd'' 12 8 (Some \<lparr>byteOffset = 16, byteLength = 4\<rparr>) None])] \<and>
   findBox [MOVBox ''moov'' 20 0 None
            (Some [MOVBox ''mvhd'' 12 8 (Some \<lparr>byteOffset = 16, byteLength = 4\<rparr>) None])] ''moov''
     = Some (MOVBox ''moov'' 20 0 None
            (Some [MOVBox ''mvhd'' 12 8 (Some \<lparr>byteOffset = 16, byteLength = 4\<rparr>) None])) \<and>
   findBox (children_or_empty (MOVBox ''moov'' 20 0 None
            (Some [MOVBox ''mvhd'' 12 8 (Some \<lparr>byteOffset = 16, byteLength = 4\<rparr>) None]))) ''mvhd''
     = Some (MOVBox ''mvhd'' 12 8 (Some \<lparr>byteOffset = 16, byteLength = 4\<rparr>) None) \<and>
   parseMVHD (buffer (new_MOVDemuxer short_mvhd_file default_options))
     (MOVBox ''mvhd'' 12 8 (Some \<lparr>byteOffset = 16, byteLength = 4\<rparr>) None) = Inl RangeError \<and>
   (\<exists>e'. init (new_MOVDemuxer short_mvhd_file default_options) = Inl e') \<and>
   parseBoxes (buffer (new_MOVDemuxer moov_only_file default_options)) =
     Inr [MOVBox ''moov'' 8 0 None (Some [])] \<and>
   findBox [MOVBox ''moov'' 8 0 None (Some [])] ''moov'' = Some (MOVBox ''moov'' 8 0 None (Some [])) \<and>
   findBox (children_or_empty (MOVBox ''moov'' 8 0 None (Some []))) ''mvhd'' = None \<and>
   init (new_MOVDemuxer moov_only_file default_options) =
     Inr (new_MOVDemuxer moov_only_file default_options) \<and>
   ctx_timeScale (movContext (new_MOVDemuxer moov_only_file default_options)) =
     ctx_timeScale (movContext (new_MOVDemuxer moov_only_file default_options)) \<and>
   ctx_duration (movContext (new_MOVDemuxer moov_only_file default_options)) =
     ctx_duration (movContext (new_MOVDemuxer moov_only_file default_options))"
proof -
  let ?mvhd = "MOVBox ''mvhd'' 12 8 (Some \<lparr>byteOffset = 16, byteLength = 4\<rparr>) None"
  let ?moov = "MOVBox ''moov'' 20 0 None (Some [?mvhd])"
  let ?d = "new_MOVDemuxer short_mvhd_file default_options"
  let ?empty = "MOVBox ''moov'' 8 0 None (Some [])"
  let ?d2 = "new_MOVDemuxer moov_only_file default_options"
  have p: "parseBoxes (buffer ?d) = Inr [?moov]"
    by (simp add: new_MOVDemuxer_def short_mvhd_file_def reader_eval box_eval)
  have f: "findBox [?moov] ''moov'' = Some ?moov" by simp
  have g: "findBox (children_or_empty ?moov) ''mvhd'' = Some ?mvhd"
    by (simp add: children_or_empty_def)
  have h: "parseMVHD (buffer ?d) ?mvhd = Inl RangeError"
    by (simp add: new_MOVDemuxer_def short_mvhd_file_def reader_eval parseMVHD_def read_times_def)
  have a: "\<exists>e'. init ?d = Inl e'"
    using init_mvhd_cases[OF p f, of ?mvhd RangeError] g h by blast
  have p2: "parseBoxes (buffer ?d2) = Inr [?empty]"
    by (simp add: new_MOVDemuxer_def moov_only_file_def reader_eval box_eval)
  have f2: "findBox [?empty] ''moov'' = Some ?empty" by simp
  have g2: "findBox (children_or_empty ?empty) ''mvhd'' = None"
    by (simp add: children_or_empty_def)
  have b: "ctx_timeScale (movContext ?d2) = ctx_timeScale (movContext ?d2) \<and>
           ctx_duration (movContext ?d2) = ctx_duration (movContext ?d2)"
    using init_mvhd_cases[OF p2 f2, of _ _ ?d2] g2 init_moov_only by blast
  from p f g h a p2 f2 g2 init_moov_only b show ?thesis by blast
qed

text \<open>C6 as stated fails on a file that is an empty \<open>moov\<close> box: \<open>init\<close> returns, with
  the default time scale and duration.\<close>

theorem init_without_mvhd_counterexample:
  "parseBoxes moov_only_file = Inr [MOVBox ''moov'' 8 0 None (Some [])] \<and>
   findBox (children_or_empty (MOVBox ''moov'' 8 0 None (Some []))) ''mvhd'' = None \<and>
   init (new_MOVDemuxer moov_only_file default_options) =
     Inr (new_MOVDemuxer moov_only_file default_options) \<and>
   ctx_timeScale (movContext (new_MOVDemuxer moov_only_file default_options)) = 1000 \<and>
   ctx_duration (movContext (new_MOVDemuxer moov_only_file default_options)) = 0"
proof -
  have p: "parseBoxes moov_only_file = Inr [MOVBox ''moov'' 8 0 None (Some [])]"
    by (simp add: moov_only_file_def reader_eval box_eval)
  have g: "findBox (children_or_empty (MOVBox ''moov'' 8 0 None (Some []))) ''mvhd'' = None"
    by (simp add: children_or_empty_def)
  have v: "ctx_timeScale (movContext (new_MOVDemuxer moov_only_file default_options)) = 1000"
    "ctx_duration (movContext (new_MOVDemuxer moov_only_file default_options)) = 0"
    by (simp_all add: new_MOVDemuxer_def)
  from p g init_moov_only v show ?thesis by blast
qed

end
